theory Spec2Isabelle
  imports Complex_Main "HOL-Library.Sublist"
begin

section \<open>Data model: what the natural-language backend returns\<close>

text \<open>
  The routes hand every free-text field to the language client and keep, per field, one
  object \<open>{sentiment, entities, syntax, categories}\<close> (the spec's TextSignal). The
  fields below are the ones the helper functions read.

  JavaScript numbers are modelled as reals: scores, magnitudes and saliences are finite
  numbers, and the helpers only add, multiply by a constant, compare and take a minimum.
  The one place where a non-finite number can arise, the division in
  \<open>analyzeStructure\<close>, is modelled with the JavaScript outcomes written out
  (\<open>js_div\<close> below).

  A record field is a global constant, so where two objects of the source share a field
  name the earlier record's field is written qualified: \<open>Category.name\<close> against
  \<open>name\<close> of an entity, \<open>Entity.sentiment\<close> against \<open>sentiment\<close> of the analysis.
  The type of an entity is the string the source compares it with (\<open>'NUMBER'\<close>,
  \<open>'LOCATION'\<close>, \<open>'ORGANIZATION'\<close>, ...).
\<close>

record Sentiment =
  score :: real
  magnitude :: real

record Category =
  name :: string
  confidence :: real

record Entity =
  name :: string
  type :: string
  metadata :: "(string \<times> string) list"
  salience :: real
  sentiment :: Sentiment

record TextSpan =
  content :: string
  beginOffset :: int

record Sentence =
  "text" :: TextSpan

record Syntax =
  sentences :: "Sentence list"

record TextSignal =
  sentiment :: Sentiment
  entities :: "Entity list"
  "syntax" :: Syntax
  categories :: "Category list"

text \<open>
  Values the helpers build and the routes send with \<open>res.json\<close>: numbers (with the
  non-finite ones a division can produce), strings, arrays and objects. An object is
  the list of its keys and values in the order the source writes them.
\<close>

datatype jsval =
  Num real | NaN | Infinity | NegInfinity
  | Str string
  | Arr "jsval list"
  | Obj "(string \<times> jsval) list"

text \<open>
  Reading a property of an object (\<open>v.k\<close>), and a chain of properties
  (\<open>v.k1.k2\<close>); \<open>None\<close> where the value has no such property.
\<close>

definition field :: "string \<Rightarrow> jsval \<Rightarrow> jsval option" where
  "field k v = (case v of Obj kvs \<Rightarrow> map_of kvs k | _ \<Rightarrow> None)"

fun path :: "string list \<Rightarrow> jsval \<Rightarrow> jsval option" where
  "path [] v = Some v"
| "path (k # ks) v = (case field k v of None \<Rightarrow> None | Some w \<Rightarrow> path ks w)"

section \<open>Built-ins of the language the helpers use\<close>

text \<open>
  \<open>String.prototype.toLowerCase\<close> on the characters a \<open>string\<close> of HOL has: the
  letters A to Z are mapped to a to z, every other character is kept.
\<close>

definition lowerChar :: "char \<Rightarrow> char" where
  "lowerChar c =
     (case map_of (zip ''ABCDEFGHIJKLMNOPQRSTUVWXYZ'' ''abcdefghijklmnopqrstuvwxyz'') c of
        Some l \<Rightarrow> l
      | None \<Rightarrow> c)"

definition toLowerCase :: "string \<Rightarrow> string" where
  "toLowerCase s = map lowerChar s"

text \<open>\<open>Array.prototype.join\<close> with a separator.\<close>

fun join :: "string \<Rightarrow> string list \<Rightarrow> string" where
  "join sep [] = []"
| "join sep [x] = x"
| "join sep (x # y # ys) = x @ sep @ join sep (y # ys)"

text \<open>\<open>String.prototype.includes\<close>: the argument occurs as a contiguous part.\<close>

definition js_includes :: "string \<Rightarrow> string \<Rightarrow> bool" where
  "js_includes s part = sublist part s"

text \<open>
  The operator \<open>/\<close> on two finite numbers: a zero divisor does not throw, it gives
  \<open>NaN\<close> for \<open>0 / 0\<close> and an infinity otherwise.
\<close>

definition js_div :: "real \<Rightarrow> real \<Rightarrow> jsval" where
  "js_div a b =
     (if b \<noteq> 0 then Num (a / b)
      else if a = 0 then NaN
      else if 0 < a then Infinity
      else NegInfinity)"

section \<open>Funding helpers\<close>

definition determineStage :: "TextSignal \<Rightarrow> string" where
  "determineStage analysis =
     (let stageIndicators = map name (filter (\<lambda>e. salience e > 0.3) (entities analysis))
      in if list_ex (\<lambda>i. js_includes (toLowerCase i) ''seed'') stageIndicators then ''Seed''
         else if list_ex (\<lambda>i. js_includes (toLowerCase i) ''series a'') stageIndicators then ''Series A''
         else ''Early Stage'')"

text \<open>The object \<open>{amount, purposes}\<close> that \<open>analyzeFundingNeeds\<close> returns.\<close>

record FundingNeeds =
  amount :: string
  purposes :: "string list"

definition analyzeFundingNeeds :: "TextSignal \<Rightarrow> FundingNeeds" where
  "analyzeFundingNeeds analysis =
     (let numbers = filter (\<lambda>e. type e = ''NUMBER'') (entities analysis)
      in \<lparr>amount = (if length numbers > 0 then name (numbers ! 0) else ''Not specified''),
          purposes = map name (filter (\<lambda>e. salience e > 0.2) (entities analysis))\<rparr>)"

definition extractMetrics :: "TextSignal \<Rightarrow> jsval list" where
  "extractMetrics analysis =
     map (\<lambda>e. Obj [(''metric'', Str (name e)),
                    (''importance'', Num (salience e)),
                    (''sentiment'', Num (score (Entity.sentiment e)))])
         (filter (\<lambda>e. salience e > 0.2) (entities analysis))"

definition generateFundingRecommendations :: "TextSignal \<Rightarrow> TextSignal \<Rightarrow> string list" where
  "generateFundingRecommendations stageAnalysis needsAnalysis =
     (let recommendations0 = [];
          recommendations1 =
            (if score (sentiment stageAnalysis) < 0
               then recommendations0 @ [''Consider bootstrapping or angel investment first'']
             else if score (sentiment stageAnalysis) > 0.3
               then recommendations0 @ [''Ready for institutional investment'']
             else recommendations0);
          fundingNeeds = analyzeFundingNeeds needsAnalysis;
          recommendations2 =
            (if length (purposes fundingNeeds) < 3
               then recommendations1 @ [''Develop more detailed funding allocation plan'']
             else recommendations1)
      in recommendations2)"

text \<open>
  \<open>generateTimeline\<close> computes the stage and the needs and uses neither: the three
  phases it pushes are constants.
\<close>

definition generateTimeline :: "TextSignal \<Rightarrow> TextSignal \<Rightarrow> jsval list" where
  "generateTimeline stageAnalysis needsAnalysis =
     (let timeline0 = [];
          stage = determineStage stageAnalysis;
          needs = analyzeFundingNeeds needsAnalysis;
          timeline1 = timeline0 @
            [Obj [(''phase'', Str ''Preparation''),
                  (''duration'', Str ''1-2 months''),
                  (''activities'', Arr [Str ''Document preparation'', Str ''Financial modeling'',
                                        Str ''Pitch deck creation''])]];
          timeline2 = timeline1 @
            [Obj [(''phase'', Str ''Outreach''),
                  (''duration'', Str ''2-3 months''),
                  (''activities'', Arr [Str ''Investor identification'', Str ''Initial meetings'',
                                        Str ''Pitch refinement''])]];
          timeline3 = timeline2 @
            [Obj [(''phase'', Str ''Due Diligence''),
                  (''duration'', Str ''1-2 months''),
                  (''activities'', Arr [Str ''Financial review'', Str ''Legal documentation'',
                                        Str ''Negotiations''])]]
      in timeline3)"

definition generateInvestorProfile :: "TextSignal \<Rightarrow> jsval" where
  "generateInvestorProfile analysis =
     Obj [(''stage'', Str (determineStage analysis)),
          (''preferences'',
             Arr (map (\<lambda>e. Obj [(''criteria'', Str (name e)), (''importance'', Num (salience e))])
                      (filter (\<lambda>e. salience e > 0.2) (entities analysis)))),
          (''industries'', Arr (map (\<lambda>c. Str (Category.name c)) (categories analysis)))]"

text \<open>
  \<open>calculateMatchScore\<close>: the score starts at 0, gets the sentiment term, then the
  \<open>forEach\<close> over the lower-cased requirement names adds 10 for each name the set of
  lower-cased pitch names has; the result is \<open>Math.min(100, score)\<close>.
\<close>

definition calculateMatchScore :: "TextSignal \<Rightarrow> TextSignal \<Rightarrow> real" where
  "calculateMatchScore pitchAnalysis requirementsAnalysis =
     (let score0 = 0;
          score1 = score0 + (score (sentiment pitchAnalysis) + 1) * 50;
          pitchEntities = set (map (\<lambda>e. toLowerCase (name e)) (entities pitchAnalysis));
          reqEntities = map (\<lambda>e. toLowerCase (name e)) (entities requirementsAnalysis);
          score2 = foldl (\<lambda>acc e. if e \<in> pitchEntities then acc + 10 else acc) score1 reqEntities
      in min 100 score2)"

definition calculateReadinessScore :: "TextSignal \<Rightarrow> TextSignal \<Rightarrow> TextSignal \<Rightarrow> real" where
  "calculateReadinessScore businessAnalysis financialsAnalysis teamAnalysis =
     (let score0 = 0;
          score1 = score0 + (score (sentiment businessAnalysis) + 1) * 20;
          score2 = score1 + (score (sentiment financialsAnalysis) + 1) * 20;
          score3 = score2 + (score (sentiment teamAnalysis) + 1) * 10
      in min 100 score3)"

definition generateMatchRecommendations :: "TextSignal \<Rightarrow> TextSignal \<Rightarrow> string list" where
  "generateMatchRecommendations pitchAnalysis preferencesAnalysis =
     (let recommendations0 = [];
          recommendations1 =
            (if score (sentiment pitchAnalysis) < 0.2
               then recommendations0 @ [''Strengthen value proposition in pitch'']
             else recommendations0);
          preferences = map name (filter (\<lambda>e. salience e > 0.3) (entities preferencesAnalysis));
          recommendations2 =
            (if length preferences > 0
               then recommendations1 @ [''Focus on key preferences: '' @ join '', '' preferences]
             else recommendations1)
      in recommendations2)"

definition assessBusinessReadiness :: "TextSignal \<Rightarrow> jsval" where
  "assessBusinessReadiness analysis =
     Obj [(''score'', Num ((score (sentiment analysis) + 1) * 50)),
          (''strengths'', Arr (map (\<lambda>e. Str (name e))
                                (filter (\<lambda>e. score (Entity.sentiment e) > 0) (entities analysis)))),
          (''weaknesses'', Arr (map (\<lambda>e. Str (name e))
                                 (filter (\<lambda>e. score (Entity.sentiment e) < 0) (entities analysis))))]"

definition assessFinancialReadiness :: "TextSignal \<Rightarrow> jsval" where
  "assessFinancialReadiness analysis =
     Obj [(''score'', Num ((score (sentiment analysis) + 1) * 50)),
          (''metrics'',
             Arr (map (\<lambda>e. Obj [(''metric'', Str (name e)),
                                  (''context'', Str (case map_of (metadata e) ''description'' of
                                                       None \<Rightarrow> ''financial metric''
                                                     | Some d \<Rightarrow> if d = [] then ''financial metric'' else d))])
                      (filter (\<lambda>e. type e = ''NUMBER'') (entities analysis)))),
          (''concerns'', Arr (map (\<lambda>e. Str (name e))
                               (filter (\<lambda>e. score (Entity.sentiment e) < - 0.2) (entities analysis))))]"

definition assessTeamReadiness :: "TextSignal \<Rightarrow> jsval" where
  "assessTeamReadiness analysis =
     Obj [(''score'', Num ((score (sentiment analysis) + 1) * 50)),
          (''strengths'', Arr (map (\<lambda>e. Str (name e))
                                (filter (\<lambda>e. type e = ''PERSON'' \<and> score (Entity.sentiment e) > 0)
                                        (entities analysis)))),
          (''gaps'', Arr (map (\<lambda>e. Str (name e))
                           (filter (\<lambda>e. score (Entity.sentiment e) < 0) (entities analysis))))]"

definition generateReadinessImprovements :: "TextSignal \<Rightarrow> TextSignal \<Rightarrow> TextSignal \<Rightarrow> string list" where
  "generateReadinessImprovements businessAnalysis financialsAnalysis teamAnalysis =
     (let improvements0 = [];
          improvements1 =
            (if score (sentiment businessAnalysis) < 0.2
               then improvements0 @ [''Strengthen business model and market validation'']
             else improvements0);
          financialMetrics = filter (\<lambda>e. type e = ''NUMBER'') (entities financialsAnalysis);
          improvements2 =
            (if length financialMetrics < 3
               then improvements1 @ [''Develop more comprehensive financial projections'']
             else improvements1);
          teamMembers = filter (\<lambda>e. type e = ''PERSON'') (entities teamAnalysis);
          improvements3 =
            (if length teamMembers < 2
               then improvements2 @ [''Consider expanding core team or advisory board'']
             else improvements2)
      in improvements3)"

section \<open>Market helpers\<close>

definition extractKeyFactors :: "TextSignal \<Rightarrow> jsval list" where
  "extractKeyFactors analysis =
     map (\<lambda>e. Obj [(''factor'', Str (name e)),
                    (''importance'', Num (salience e)),
                    (''sentiment'', Num (score (Entity.sentiment e)))])
         (filter (\<lambda>e. salience e > 0.3) (entities analysis))"

definition extractMarketSize :: "TextSignal \<Rightarrow> jsval list" where
  "extractMarketSize analysis =
     (let numbers = filter (\<lambda>e. type e = ''NUMBER'') (entities analysis)
      in map (\<lambda>n. Obj [(''value'', Str (name n)),
                        (''context'', Str (case map_of (metadata n) ''description'' of
                                             None \<Rightarrow> ''market size''
                                           | Some d \<Rightarrow> if d = [] then ''market size'' else d))])
             numbers)"

definition extractTrends :: "TextSignal \<Rightarrow> jsval list" where
  "extractTrends analysis =
     map (\<lambda>e. Obj [(''trend'', Str (name e)),
                    (''impact'', Num (score (Entity.sentiment e))),
                    (''relevance'', Num (salience e))])
         (filter (\<lambda>e. salience e > 0.2 \<and> score (Entity.sentiment e) \<noteq> 0) (entities analysis))"

definition extractChallenges :: "TextSignal \<Rightarrow> jsval list" where
  "extractChallenges analysis =
     map (\<lambda>e. Obj [(''challenge'', Str (name e)),
                    (''severity'', Num \<bar>score (Entity.sentiment e)\<bar>),
                    (''relevance'', Num (salience e))])
         (filter (\<lambda>e. score (Entity.sentiment e) < 0) (entities analysis))"

definition extractOpportunities :: "TextSignal \<Rightarrow> jsval list" where
  "extractOpportunities analysis =
     map (\<lambda>e. Obj [(''opportunity'', Str (name e)),
                    (''potential'', Num (score (Entity.sentiment e))),
                    (''relevance'', Num (salience e))])
         (filter (\<lambda>e. score (Entity.sentiment e) > 0 \<and> salience e > 0.2) (entities analysis))"

definition analyzeTrends :: "TextSignal \<Rightarrow> jsval list" where
  "analyzeTrends analysis =
     map (\<lambda>e. Obj [(''trend'', Str (name e)),
                    (''growth'', Str (if score (Entity.sentiment e) > 0 then ''Growing'' else ''Declining'')),
                    (''confidence'', Num (salience e))])
         (filter (\<lambda>e. salience e > 0.2) (entities analysis))"

definition generateForecast :: "TextSignal \<Rightarrow> jsval" where
  "generateForecast analysis =
     (let trends = filter (\<lambda>e. salience e > 0.3) (entities analysis);
          sentiment' = score (sentiment analysis)
      in Obj [(''outlook'', Str (if sentiment' > 0 then ''Positive'' else ''Challenging'')),
              (''confidence'', Num \<bar>sentiment'\<bar>),
              (''keyDrivers'', Arr (map (\<lambda>t. Str (name t)) trends))])"

text \<open>
  \<open>generateMarketRecommendations\<close>: the array starts empty and each \<open>push\<close> appends.
\<close>

definition generateMarketRecommendations :: "TextSignal \<Rightarrow> TextSignal \<Rightarrow> string list" where
  "generateMarketRecommendations marketAnalysis industryAnalysis =
     (let recommendations0 = [];
          recommendations1 =
            (if score (sentiment marketAnalysis) > 0.3
               then recommendations0 @ [''Consider aggressive market entry strategies'']
             else if score (sentiment marketAnalysis) < 0
               then recommendations0 @ [''Focus on niche market segments initially'']
             else recommendations0);
          challenges = extractChallenges industryAnalysis;
          recommendations2 =
            (if length challenges > 0
               then recommendations1 @ [''Develop mitigation strategies for identified challenges'']
             else recommendations1)
      in recommendations2)"

definition extractCompetitors :: "TextSignal \<Rightarrow> jsval list" where
  "extractCompetitors analysis =
     map (\<lambda>e. Obj [(''name'', Str (name e)),
                    (''marketPresence'', Num (salience e)),
                    (''sentiment'', Num (score (Entity.sentiment e)))])
         (filter (\<lambda>e. type e = ''ORGANIZATION'') (entities analysis))"

definition analyzeStrengths :: "TextSignal \<Rightarrow> jsval list" where
  "analyzeStrengths analysis =
     map (\<lambda>e. Obj [(''strength'', Str (name e)),
                    (''impact'', Num (score (Entity.sentiment e))),
                    (''relevance'', Num (salience e))])
         (filter (\<lambda>e. score (Entity.sentiment e) > 0) (entities analysis))"

definition analyzeWeaknesses :: "TextSignal \<Rightarrow> jsval list" where
  "analyzeWeaknesses analysis =
     map (\<lambda>e. Obj [(''weakness'', Str (name e)),
                    (''impact'', Num \<bar>score (Entity.sentiment e)\<bar>),
                    (''relevance'', Num (salience e))])
         (filter (\<lambda>e. score (Entity.sentiment e) < 0) (entities analysis))"

definition generateCompetitorRecommendations :: "TextSignal \<Rightarrow> string list" where
  "generateCompetitorRecommendations analysis =
     (let recommendations0 = [];
          competitors = extractCompetitors analysis;
          recommendations1 =
            (if length competitors > 3
               then recommendations0 @ [''Market is highly competitive - focus on differentiation'']
             else if length competitors < 2
               then recommendations0 @ [''Consider first-mover advantages in this market'']
             else recommendations0);
          recommendations2 =
            (if score (sentiment analysis) < - 0.2
               then recommendations1 @ [''Develop strong competitive advantages before market entry'']
             else recommendations1)
      in recommendations2)"

definition generateEntryStrategy :: "TextSignal \<Rightarrow> jsval" where
  "generateEntryStrategy analysis =
     (let keyGoals = map name (filter (\<lambda>e. salience e > 0.3) (entities analysis))
      in Obj [(''approach'', Str (if score (sentiment analysis) > 0 then ''Aggressive'' else ''Conservative'')),
              (''keyObjectives'', Arr (map Str keyGoals)),
              (''timeline'', Str (if length (entities analysis) > 5 then ''Long-term'' else ''Short-term''))])"

definition analyzeResources :: "TextSignal \<Rightarrow> jsval list" where
  "analyzeResources analysis =
     map (\<lambda>e. Obj [(''resource'', Str (name e)),
                    (''availability'', Str (if score (Entity.sentiment e) > 0 then ''Available'' else ''Limited'')),
                    (''priority'', Num (salience e))])
         (filter (\<lambda>e. salience e > 0.2) (entities analysis))"

definition generateMitigation :: "Entity \<Rightarrow> string" where
  "generateMitigation constraint = ''Develop contingency plans for '' @ name constraint"

definition analyzeConstraints :: "TextSignal \<Rightarrow> jsval list" where
  "analyzeConstraints analysis =
     map (\<lambda>e. Obj [(''constraint'', Str (name e)),
                    (''severity'', Num \<bar>score (Entity.sentiment e)\<bar>),
                    (''mitigation'', Str (generateMitigation e))])
         (filter (\<lambda>e. score (Entity.sentiment e) < 0) (entities analysis))"

text \<open>
  \<open>generateActionPlan\<close>: the first \<open>forEach\<close> pushes one action per goal, the second
  one per resource.
\<close>

definition generateActionPlan :: "TextSignal \<Rightarrow> TextSignal \<Rightarrow> jsval list" where
  "generateActionPlan goalsAnalysis resourcesAnalysis =
     (let actions0 = [];
          goals = filter (\<lambda>e. salience e > 0.3) (entities goalsAnalysis);
          actions1 =
            foldl (\<lambda>acc goal.
                     acc @ [Obj [(''objective'', Str (name goal)),
                                 (''priority'', Num (salience goal)),
                                 (''timeline'', Str (if score (Entity.sentiment goal) > 0
                                                     then ''Short-term'' else ''Long-term''))]])
                  actions0 goals;
          resources = filter (\<lambda>e. salience e > 0.2) (entities resourcesAnalysis);
          actions2 =
            foldl (\<lambda>acc resource.
                     acc @ [Obj [(''action'', Str (''Allocate '' @ name resource)),
                                 (''priority'', Num (salience resource)),
                                 (''status'', Str (if score (Entity.sentiment resource) > 0
                                                   then ''Ready'' else ''Needs preparation''))]])
                  actions1 resources
      in actions2)"

section \<open>Pitch helpers\<close>

text \<open>
  The pitch router has its own \<open>extractStrengths\<close> and \<open>extractOpportunities\<close>,
  written \<open>extractStrengths_pitch\<close> and \<open>extractOpportunities_pitch\<close> here.
\<close>

definition extractKeyPoints :: "TextSignal \<Rightarrow> jsval list" where
  "extractKeyPoints analysis =
     map (\<lambda>e. Obj [(''point'', Str (name e)),
                    (''importance'', Num (salience e)),
                    (''sentiment'', Num (score (Entity.sentiment e)))])
         (filter (\<lambda>e. salience e > 0.3) (entities analysis))"

definition extractStrengths_pitch :: "TextSignal \<Rightarrow> string list" where
  "extractStrengths_pitch analysis =
     map name (filter (\<lambda>e. score (Entity.sentiment e) > 0 \<and> salience e > 0.2) (entities analysis))"

definition extractUniqueValue :: "TextSignal \<Rightarrow> jsval" where
  "extractUniqueValue analysis =
     (let highValueEntities = map name (filter (\<lambda>e. salience e > 0.4) (entities analysis))
      in Obj [(''keyFeatures'', Arr (map Str highValueEntities)),
              (''overallSentiment'', Num (score (sentiment analysis)))])"

definition extractOpportunities_pitch :: "TextSignal \<Rightarrow> jsval list" where
  "extractOpportunities_pitch analysis =
     map (\<lambda>e. Obj [(''name'', Str (name e)),
                    (''type'', Str (type e)),
                    (''relevance'', Num (salience e))])
         (filter (\<lambda>e. type e = ''LOCATION'' \<or> type e = ''ORGANIZATION'') (entities analysis))"

definition extractTargetSegments :: "TextSignal \<Rightarrow> jsval list" where
  "extractTargetSegments analysis =
     map (\<lambda>e. Obj [(''segment'', Str (name e)),
                    (''type'', Str (type e)),
                    (''sentiment'', Num (score (Entity.sentiment e)))])
         (filter (\<lambda>e. type e = ''PERSON'' \<or> type e = ''ORGANIZATION'') (entities analysis))"

definition generatePitchRecommendations :: "TextSignal \<Rightarrow> string list" where
  "generatePitchRecommendations analysis =
     (let recommendations0 = [];
          recommendations1 =
            (if score (sentiment analysis) < 0.2
               then recommendations0 @ [''Enhance positive aspects of the pitch'']
             else recommendations0);
          keyEntities = filter (\<lambda>e. salience e > 0.3) (entities analysis);
          recommendations2 =
            (if length keyEntities < 3
               then recommendations1 @ [''Include more specific details about key features/benefits'']
             else recommendations1);
          sentenceCount = length (sentences (syntax analysis));
          recommendations3 =
            (if sentenceCount > 15
               then recommendations2 @ [''Consider making the pitch more concise'']
             else recommendations2)
      in recommendations3)"

definition generateMentorResponse :: "TextSignal \<Rightarrow> TextSignal \<Rightarrow> string" where
  "generateMentorResponse questionAnalysis contextAnalysis =
     (let response0 = [];
          relevantContext = map name (filter (\<lambda>e. salience e > 0.3) (entities contextAnalysis));
          response1 =
            (if length relevantContext > 0
               then response0 @ [''Based on '' @ join '', '' relevantContext @ '', here's my perspective:'']
             else response0);
          response2 =
            (if score (sentiment questionAnalysis) < 0
               then response1 @ [''Let me address your concerns constructively.'']
             else response1)
      in join '' '' response2)"

definition extractInsights :: "TextSignal \<Rightarrow> jsval list" where
  "extractInsights analysis =
     map (\<lambda>e. Obj [(''topic'', Str (name e)),
                    (''relevance'', Num (salience e)),
                    (''sentiment'', Num (score (Entity.sentiment e)))])
         (filter (\<lambda>e. salience e > 0.2) (entities analysis))"

definition generateSuggestions :: "TextSignal \<Rightarrow> string list" where
  "generateSuggestions analysis =
     (let suggestions0 = [];
          suggestions1 =
            (if length (sentences (syntax analysis)) > 2
               then suggestions0 @ [''Consider breaking down your question into smaller parts'']
             else suggestions0);
          keyTopics = map name (filter (\<lambda>e. salience e > 0.3) (entities analysis));
          suggestions2 =
            (if length keyTopics > 0
               then suggestions1 @ [''Focus on key aspects: '' @ join '', '' keyTopics]
             else suggestions1)
      in suggestions2)"

definition analyzeClarity :: "TextSignal \<Rightarrow> jsval" where
  "analyzeClarity analysis =
     Obj [(''score'', Num (magnitude (sentiment analysis) * 100)),
          (''keyTerms'', Arr (map (\<lambda>e. Str (name e))
                               (filter (\<lambda>e. salience e > 0.2) (entities analysis))))]"

definition analyzeImpact :: "TextSignal \<Rightarrow> jsval" where
  "analyzeImpact analysis =
     Obj [(''score'', Num (score (sentiment analysis) * 100)),
          (''strongPoints'', Arr (map (\<lambda>e. Str (name e))
                                   (filter (\<lambda>e. score (Entity.sentiment e) > 0.3) (entities analysis))))]"

text \<open>
  \<open>analyzeStructure\<close>: the \<open>reduce\<close> sums the lengths of the sentence texts from 0,
  and the sum is divided by the number of sentences with no test of that number.
\<close>

definition analyzeStructure :: "TextSignal \<Rightarrow> jsval" where
  "analyzeStructure analysis =
     (let sentences' = sentences (syntax analysis)
      in Obj [(''sentenceCount'', Num (real (length sentences'))),
              (''averageLength'',
                 js_div (foldl (\<lambda>acc s. acc + real (length (content (text s)))) 0 sentences')
                        (real (length sentences'))),
              (''flow'', Str (if length sentences' > 10 then ''Complex'' else ''Concise''))])"

definition generateImprovements :: "TextSignal \<Rightarrow> string list" where
  "generateImprovements analysis =
     (let improvements0 = [];
          improvements1 =
            (if length (sentences (syntax analysis)) > 12
               then improvements0 @ [''Consider shortening the pitch for better impact'']
             else improvements0);
          improvements2 =
            (if magnitude (sentiment analysis) < 0.5
               then improvements1 @ [''Add more emotional appeal to engage audience'']
             else improvements1);
          keyPoints = filter (\<lambda>e. salience e > 0.3) (entities analysis);
          improvements3 =
            (if length keyPoints < 3
               then improvements2 @ [''Include more specific examples and key benefits'']
             else improvements2)
      in improvements3)"

section \<open>Planning helpers: idea check and SWOT\<close>

definition generateRecommendations :: "TextSignal \<Rightarrow> string list" where
  "generateRecommendations analysis =
     (let recommendations0 = [];
          recommendations1 =
            (if score (sentiment analysis) < 0
               then recommendations0 @ [''Consider refining the value proposition to address potential concerns'']
             else recommendations0);
          marketEntities = filter (\<lambda>e. type e = ''LOCATION'' \<or> type e = ''ORGANIZATION'') (entities analysis);
          recommendations2 =
            (if length marketEntities > 0
               then recommendations1 @ [''Focus on key markets/organizations: '' @ join '', '' (map name marketEntities)]
             else recommendations1);
          recommendations3 =
            (if length (categories analysis) > 0
               then recommendations2 @ [''Consider expanding into related categories: ''
                                          @ join '', '' (map Category.name (categories analysis))]
             else recommendations2)
      in recommendations3)"

definition extractStrengths :: "TextSignal \<Rightarrow> TextSignal \<Rightarrow> string list" where
  "extractStrengths ideaAnalysis marketAnalysis =
     (let strengths0 = [];
          strengths1 =
            (if score (sentiment ideaAnalysis) > 0.3
               then strengths0 @ [''Strong positive market perception potential'']
             else strengths0);
          keyMarketEntities = map name (filter (\<lambda>e. salience e > 0.3) (entities marketAnalysis));
          strengths2 =
            (if length keyMarketEntities > 0
               then strengths1 @ [''Strong presence in key markets: '' @ join '', '' keyMarketEntities]
             else strengths1)
      in strengths2)"

definition extractWeaknesses :: "TextSignal \<Rightarrow> TextSignal \<Rightarrow> string list" where
  "extractWeaknesses ideaAnalysis competitionAnalysis =
     (let weaknesses0 = [];
          weaknesses1 =
            (if score (sentiment ideaAnalysis) < 0
               then weaknesses0 @ [''Potential negative market perception'']
             else weaknesses0);
          competitorStrengths =
            map name (filter (\<lambda>e. salience e > 0.3 \<and> score (Entity.sentiment e) > 0)
                             (entities competitionAnalysis));
          weaknesses2 =
            (if length competitorStrengths > 0
               then weaknesses1 @ [''Strong competition in: '' @ join '', '' competitorStrengths]
             else weaknesses1)
      in weaknesses2)"

text \<open>
  The planning router has its own \<open>extractOpportunities\<close>, of the market analysis
  alone; it is written \<open>extractOpportunities_swot\<close> here, the market router's function
  of the same name being defined above.
\<close>

definition extractOpportunities_swot :: "TextSignal \<Rightarrow> string list" where
  "extractOpportunities_swot marketAnalysis =
     (let opportunities0 = [];
          opportunities1 =
            (if score (sentiment marketAnalysis) > 0
               then opportunities0 @ [''Favorable market conditions'']
             else opportunities0);
          opportunities2 =
            foldl (\<lambda>acc category.
                     if confidence category > 0.7
                       then acc @ [''High potential in '' @ Category.name category]
                     else acc)
                  opportunities1 (categories marketAnalysis)
      in opportunities2)"

definition extractThreats :: "TextSignal \<Rightarrow> TextSignal \<Rightarrow> string list" where
  "extractThreats competitionAnalysis marketAnalysis =
     (let threats0 = [];
          threats1 =
            (if score (sentiment marketAnalysis) < - 0.2
               then threats0 @ [''Challenging market conditions'']
             else threats0);
          strongCompetitors =
            map name (filter (\<lambda>e. salience e > 0.3 \<and> score (Entity.sentiment e) > 0.5)
                             (entities competitionAnalysis));
          threats2 =
            (if length strongCompetitors > 0
               then threats1 @ [''Strong competition from: '' @ join '', '' strongCompetitors]
             else threats1)
      in threats2)"

section \<open>The language client and the routes\<close>

text \<open>
  Each method of the language client returns a promise that resolves to a result or is
  rejected. The client is outside the repository, so it is a parameter: four functions
  that answer a request for a text, and may answer differently depending on the requests
  made before (the history), so that a client which rejects once and would accept a
  second attempt is among the clients considered. A computation that awaits such
  promises takes the history and returns its outcome with the history extended by the
  requests it made.
\<close>

datatype clientMethod = AnalyzeSentiment | AnalyzeEntities | AnalyzeSyntax | ClassifyText

type_synonym call = "clientMethod \<times> string"

datatype error = Rejected string

record LanguageServiceClient =
  analyzeSentiment :: "call list \<Rightarrow> string \<Rightarrow> error + Sentiment"
  analyzeEntities :: "call list \<Rightarrow> string \<Rightarrow> error + Entity list"
  analyzeSyntax :: "call list \<Rightarrow> string \<Rightarrow> error + Syntax"
  classifyText :: "call list \<Rightarrow> string \<Rightarrow> error + Category list option"

type_synonym 'a async = "call list \<Rightarrow> (error + 'a) \<times> call list"

definition request :: "clientMethod \<Rightarrow> (call list \<Rightarrow> string \<Rightarrow> error + 'a) \<Rightarrow> string \<Rightarrow> 'a async" where
  "request m f txt h = (f h txt, h @ [(m, txt)])"

text \<open>
  \<open>await\<close> inside \<open>try\<close>: a rejected promise throws, which ends the computation with
  the error; otherwise the rest runs with the value.
\<close>

definition await :: "'a async \<Rightarrow> ('a \<Rightarrow> 'b async) \<Rightarrow> 'b async" where
  "await p k h = (case p h of (Inl e, h') \<Rightarrow> (Inl e, h') | (Inr x, h') \<Rightarrow> k x h')"

definition resolve :: "'a \<Rightarrow> 'a async" where
  "resolve x h = (Inr x, h)"

text \<open>
  \<open>analyzeMarketData\<close> (market router), \<open>analyzeBusinessIdea\<close> (planning router)
  and \<open>analyzeFundingData\<close> (funding router) make the same four requests in the same
  order; \<open>analyzePitch\<close> (pitch router) makes the first three. A classification without categories gives the empty list
  (\<open>classificationResult.categories || []\<close>).
\<close>

definition analyzeMarketData :: "LanguageServiceClient \<Rightarrow> string \<Rightarrow> TextSignal async" where
  "analyzeMarketData languageClient txt =
     await (request AnalyzeSentiment (analyzeSentiment languageClient) txt) (\<lambda>sentimentResult.
     await (request AnalyzeEntities (analyzeEntities languageClient) txt) (\<lambda>entityResult.
     await (request AnalyzeSyntax (analyzeSyntax languageClient) txt) (\<lambda>syntaxResult.
     await (request ClassifyText (classifyText languageClient) txt) (\<lambda>classificationResult.
     resolve \<lparr>sentiment = sentimentResult,
              entities = entityResult,
              syntax = syntaxResult,
              categories = (case classificationResult of None \<Rightarrow> [] | Some cs \<Rightarrow> cs)\<rparr>))))"

definition analyzeBusinessIdea :: "LanguageServiceClient \<Rightarrow> string \<Rightarrow> TextSignal async" where
  "analyzeBusinessIdea languageClient txt =
     await (request AnalyzeSentiment (analyzeSentiment languageClient) txt) (\<lambda>sentimentResult.
     await (request AnalyzeEntities (analyzeEntities languageClient) txt) (\<lambda>entityResult.
     await (request AnalyzeSyntax (analyzeSyntax languageClient) txt) (\<lambda>syntaxResult.
     await (request ClassifyText (classifyText languageClient) txt) (\<lambda>classificationResult.
     resolve \<lparr>sentiment = sentimentResult,
              entities = entityResult,
              syntax = syntaxResult,
              categories = (case classificationResult of None \<Rightarrow> [] | Some cs \<Rightarrow> cs)\<rparr>))))"

definition analyzeFundingData :: "LanguageServiceClient \<Rightarrow> string \<Rightarrow> TextSignal async" where
  "analyzeFundingData languageClient txt =
     await (request AnalyzeSentiment (analyzeSentiment languageClient) txt) (\<lambda>sentimentResult.
     await (request AnalyzeEntities (analyzeEntities languageClient) txt) (\<lambda>entityResult.
     await (request AnalyzeSyntax (analyzeSyntax languageClient) txt) (\<lambda>syntaxResult.
     await (request ClassifyText (classifyText languageClient) txt) (\<lambda>classificationResult.
     resolve \<lparr>sentiment = sentimentResult,
              entities = entityResult,
              syntax = syntaxResult,
              categories = (case classificationResult of None \<Rightarrow> [] | Some cs \<Rightarrow> cs)\<rparr>))))"

text \<open>
  \<open>analyzePitch\<close> returns an object without \<open>categories\<close>; no pitch helper reads that
  field, and it is the empty list here.
\<close>

definition analyzePitch :: "LanguageServiceClient \<Rightarrow> string \<Rightarrow> TextSignal async" where
  "analyzePitch languageClient txt =
     await (request AnalyzeSentiment (analyzeSentiment languageClient) txt) (\<lambda>sentimentResult.
     await (request AnalyzeEntities (analyzeEntities languageClient) txt) (\<lambda>entityResult.
     await (request AnalyzeSyntax (analyzeSyntax languageClient) txt) (\<lambda>syntaxResult.
     resolve \<lparr>sentiment = sentimentResult,
              entities = entityResult,
              syntax = syntaxResult,
              categories = []\<rparr>)))"

text \<open>
  What a handler sends: \<open>res.json(body)\<close> is status 200 with the body,
  \<open>res.status(500).json(body)\<close> is status 500 with the body. The handlers below are
  the bodies of the routes after \<open>verifyToken\<close>; the \<open>catch\<close> branch also writes the
  error to the console, which is not modelled.
\<close>

datatype response = Response (status: nat) (body: jsval)

text \<open>\<open>router.post('/analyze', ...)\<close> of the market router.\<close>

definition post_analyze ::
  "LanguageServiceClient \<Rightarrow> string \<Rightarrow> string \<Rightarrow> string \<Rightarrow> call list \<Rightarrow> response \<times> call list" where
  "post_analyze languageClient market industry trends h =
     (case
        (await (analyzeMarketData languageClient market) (\<lambda>marketAnalysis.
         await (analyzeMarketData languageClient industry) (\<lambda>industryAnalysis.
         await (analyzeMarketData languageClient trends) (\<lambda>trendsAnalysis.
         resolve
           (Obj [(''marketOverview'',
                    Obj [(''sentiment'', Num (score (sentiment marketAnalysis))),
                         (''keyFactors'', Arr (extractKeyFactors marketAnalysis)),
                         (''marketSize'', Arr (extractMarketSize marketAnalysis))]),
                 (''industryAnalysis'',
                    Obj [(''trends'', Arr (extractTrends industryAnalysis)),
                         (''challenges'', Arr (extractChallenges industryAnalysis)),
                         (''opportunities'', Arr (extractOpportunities industryAnalysis))]),
                 (''growthPotential'',
                    Obj [(''trends'', Arr (analyzeTrends trendsAnalysis)),
                         (''forecast'', generateForecast trendsAnalysis)]),
                 (''recommendations'',
                    Arr (map Str (generateMarketRecommendations marketAnalysis industryAnalysis)))]))))) h
      of (Inr analysis, h') \<Rightarrow> (Response 200 (Obj [(''analysis'', analysis)]), h')
       | (Inl err, h') \<Rightarrow> (Response 500 (Obj [(''error'', Str ''Failed to analyze market'')]), h'))"

text \<open>\<open>router.post('/idea-check', ...)\<close> and \<open>router.post('/swot', ...)\<close> of the planning router.\<close>

definition post_idea_check ::
  "LanguageServiceClient \<Rightarrow> string \<Rightarrow> call list \<Rightarrow> response \<times> call list" where
  "post_idea_check languageClient idea h =
     (case
        (await (analyzeBusinessIdea languageClient idea) (\<lambda>analysis.
         resolve
           (Obj [(''feasibility'',
                    Obj [(''score'', Num (score (sentiment analysis) * 100)),
                         (''explanation'',
                            Str (''The idea sentiment analysis shows ''
                                 @ (if score (sentiment analysis) > 0 then ''positive'' else ''negative'')
                                 @ '' indicators''))]),
                 (''marketPotential'',
                    Obj [(''categories'',
                            Arr (map (\<lambda>c. Obj [(''name'', Str (Category.name c)),
                                                 (''confidence'', Num (confidence c))])
                                     (categories analysis))),
                         (''keyEntities'',
                            Arr (map (\<lambda>e. Obj [(''name'', Str (name e)),
                                                 (''type'', Str (type e)),
                                                 (''salience'', Num (salience e))])
                                     (filter (\<lambda>e. salience e > 0.1) (entities analysis))))]),
                 (''recommendations'', Arr (map Str (generateRecommendations analysis)))]))) h
      of (Inr response, h') \<Rightarrow> (Response 200 response, h')
       | (Inl err, h') \<Rightarrow> (Response 500 (Obj [(''error'', Str ''Failed to analyze idea'')]), h'))"

definition post_swot ::
  "LanguageServiceClient \<Rightarrow> string \<Rightarrow> string \<Rightarrow> string \<Rightarrow> call list \<Rightarrow> response \<times> call list" where
  "post_swot languageClient idea market competition h =
     (case
        (await (analyzeBusinessIdea languageClient idea) (\<lambda>ideaAnalysis.
         await (analyzeBusinessIdea languageClient market) (\<lambda>marketAnalysis.
         await (analyzeBusinessIdea languageClient competition) (\<lambda>competitionAnalysis.
         resolve
           (Obj [(''strengths'', Arr (map Str (extractStrengths ideaAnalysis marketAnalysis))),
                 (''weaknesses'', Arr (map Str (extractWeaknesses ideaAnalysis competitionAnalysis))),
                 (''opportunities'', Arr (map Str (extractOpportunities_swot marketAnalysis))),
                 (''threats'', Arr (map Str (extractThreats competitionAnalysis marketAnalysis)))]))))) h
      of (Inr swot, h') \<Rightarrow> (Response 200 (Obj [(''swot'', swot)]), h')
       | (Inl err, h') \<Rightarrow> (Response 500 (Obj [(''error'', Str ''Failed to generate SWOT analysis'')]), h'))"

text \<open>\<open>router.post('/practice-feedback', ...)\<close> of the pitch router.\<close>

definition post_practice_feedback ::
  "LanguageServiceClient \<Rightarrow> string \<Rightarrow> call list \<Rightarrow> response \<times> call list" where
  "post_practice_feedback languageClient pitchScript h =
     (case
        (await (analyzePitch languageClient pitchScript) (\<lambda>analysis.
         resolve
           (Obj [(''clarity'', analyzeClarity analysis),
                 (''impact'', analyzeImpact analysis),
                 (''structure'', analyzeStructure analysis),
                 (''improvements'', Arr (map Str (generateImprovements analysis)))]))) h
      of (Inr feedback, h') \<Rightarrow> (Response 200 (Obj [(''feedback'', feedback)]), h')
       | (Inl err, h') \<Rightarrow> (Response 500 (Obj [(''error'', Str ''Failed to generate practice feedback'')]), h'))"

text \<open>\<open>router.post('/competitors', ...)\<close> and \<open>router.post('/strategy', ...)\<close> of the market router.\<close>

definition post_competitors ::
  "LanguageServiceClient \<Rightarrow> string \<Rightarrow> string \<Rightarrow> string \<Rightarrow> call list \<Rightarrow> response \<times> call list" where
  "post_competitors languageClient competitors strengths weaknesses h =
     (case
        (await (analyzeMarketData languageClient competitors) (\<lambda>competitorAnalysis.
         await (analyzeMarketData languageClient strengths) (\<lambda>strengthsAnalysis.
         await (analyzeMarketData languageClient weaknesses) (\<lambda>weaknessesAnalysis.
         resolve
           (Obj [(''competitorOverview'', Arr (extractCompetitors competitorAnalysis)),
                 (''competitiveAdvantages'', Arr (analyzeStrengths strengthsAnalysis)),
                 (''marketGaps'', Arr (analyzeWeaknesses weaknessesAnalysis)),
                 (''recommendations'',
                    Arr (map Str (generateCompetitorRecommendations competitorAnalysis)))]))))) h
      of (Inr analysis, h') \<Rightarrow> (Response 200 (Obj [(''analysis'', analysis)]), h')
       | (Inl err, h') \<Rightarrow> (Response 500 (Obj [(''error'', Str ''Failed to analyze competitors'')]), h'))"

definition post_strategy ::
  "LanguageServiceClient \<Rightarrow> string \<Rightarrow> string \<Rightarrow> string \<Rightarrow> call list \<Rightarrow> response \<times> call list" where
  "post_strategy languageClient goals resources constraints h =
     (case
        (await (analyzeMarketData languageClient goals) (\<lambda>goalsAnalysis.
         await (analyzeMarketData languageClient resources) (\<lambda>resourcesAnalysis.
         await (analyzeMarketData languageClient constraints) (\<lambda>constraintsAnalysis.
         resolve
           (Obj [(''marketEntry'', generateEntryStrategy goalsAnalysis),
                 (''resourceAllocation'', Arr (analyzeResources resourcesAnalysis)),
                 (''riskMitigation'', Arr (analyzeConstraints constraintsAnalysis)),
                 (''actionPlan'', Arr (generateActionPlan goalsAnalysis resourcesAnalysis))]))))) h
      of (Inr strategy, h') \<Rightarrow> (Response 200 (Obj [(''strategy'', strategy)]), h')
       | (Inl err, h') \<Rightarrow> (Response 500 (Obj [(''error'', Str ''Failed to generate strategy'')]), h'))"

text \<open>\<open>router.post('/generate-deck', ...)\<close> and \<open>router.post('/mentor-qa', ...)\<close> of the pitch router.\<close>

definition post_generate_deck ::
  "LanguageServiceClient \<Rightarrow> string \<Rightarrow> string \<Rightarrow> string \<Rightarrow> call list \<Rightarrow> response \<times> call list" where
  "post_generate_deck languageClient pitch company market h =
     (case
        (await (analyzePitch languageClient pitch) (\<lambda>pitchAnalysis.
         await (analyzePitch languageClient company) (\<lambda>companyAnalysis.
         await (analyzePitch languageClient market) (\<lambda>marketAnalysis.
         resolve
           (Obj [(''overview'',
                    Obj [(''keyPoints'', Arr (extractKeyPoints pitchAnalysis)),
                         (''sentiment'', Num (score (sentiment pitchAnalysis)))]),
                 (''company'',
                    Obj [(''strengths'', Arr (map Str (extractStrengths_pitch companyAnalysis))),
                         (''uniqueValue'', extractUniqueValue companyAnalysis)]),
                 (''market'',
                    Obj [(''opportunities'', Arr (extractOpportunities_pitch marketAnalysis)),
                         (''targetSegments'', Arr (extractTargetSegments marketAnalysis))]),
                 (''recommendations'', Arr (map Str (generatePitchRecommendations pitchAnalysis)))]))))) h
      of (Inr deckContent, h') \<Rightarrow> (Response 200 (Obj [(''deckContent'', deckContent)]), h')
       | (Inl err, h') \<Rightarrow> (Response 500 (Obj [(''error'', Str ''Failed to generate pitch deck'')]), h'))"

definition post_mentor_qa ::
  "LanguageServiceClient \<Rightarrow> string \<Rightarrow> string \<Rightarrow> call list \<Rightarrow> response \<times> call list" where
  "post_mentor_qa languageClient question context h =
     (case
        (await (analyzePitch languageClient question) (\<lambda>questionAnalysis.
         await (analyzePitch languageClient context) (\<lambda>contextAnalysis.
         resolve
           (Obj [(''answer'', Str (generateMentorResponse questionAnalysis contextAnalysis)),
                 (''insights'', Arr (extractInsights contextAnalysis)),
                 (''suggestions'', Arr (map Str (generateSuggestions questionAnalysis)))])))) h
      of (Inr response, h') \<Rightarrow> (Response 200 response, h')
       | (Inl err, h') \<Rightarrow> (Response 500 (Obj [(''error'', Str ''Failed to generate mentor response'')]), h'))"

text \<open>
  \<open>router.post('/guidance', ...)\<close>, \<open>router.post('/investor-match', ...)\<close> and
  \<open>router.post('/readiness', ...)\<close> of the funding router.
\<close>

definition post_guidance ::
  "LanguageServiceClient \<Rightarrow> string \<Rightarrow> string \<Rightarrow> string \<Rightarrow> call list \<Rightarrow> response \<times> call list" where
  "post_guidance languageClient stage needs metrics h =
     (case
        (await (analyzeFundingData languageClient stage) (\<lambda>stageAnalysis.
         await (analyzeFundingData languageClient needs) (\<lambda>needsAnalysis.
         await (analyzeFundingData languageClient metrics) (\<lambda>metricsAnalysis.
         resolve
           (Obj [(''fundingStrategy'',
                    Obj [(''recommendedStage'', Str (determineStage stageAnalysis)),
                         (''fundingNeeds'',
                            Obj [(''amount'', Str (amount (analyzeFundingNeeds needsAnalysis))),
                                 (''purposes'', Arr (map Str (purposes (analyzeFundingNeeds needsAnalysis))))]),
                         (''keyMetrics'', Arr (extractMetrics metricsAnalysis))]),
                 (''recommendations'',
                    Arr (map Str (generateFundingRecommendations stageAnalysis needsAnalysis))),
                 (''timeline'', Arr (generateTimeline stageAnalysis needsAnalysis))]))))) h
      of (Inr guidance, h') \<Rightarrow> (Response 200 (Obj [(''guidance'', guidance)]), h')
       | (Inl err, h') \<Rightarrow> (Response 500 (Obj [(''error'', Str ''Failed to generate funding guidance'')]), h'))"

definition post_investor_match ::
  "LanguageServiceClient \<Rightarrow> string \<Rightarrow> string \<Rightarrow> string \<Rightarrow> call list \<Rightarrow> response \<times> call list" where
  "post_investor_match languageClient pitch requirements preferences h =
     (case
        (await (analyzeFundingData languageClient pitch) (\<lambda>pitchAnalysis.
         await (analyzeFundingData languageClient requirements) (\<lambda>requirementsAnalysis.
         await (analyzeFundingData languageClient preferences) (\<lambda>preferencesAnalysis.
         resolve
           (Obj [(''investorProfile'', generateInvestorProfile requirementsAnalysis),
                 (''matchScore'', Num (calculateMatchScore pitchAnalysis requirementsAnalysis)),
                 (''recommendations'',
                    Arr (map Str (generateMatchRecommendations pitchAnalysis preferencesAnalysis)))]))))) h
      of (Inr matches, h') \<Rightarrow> (Response 200 (Obj [(''matches'', matches)]), h')
       | (Inl err, h') \<Rightarrow> (Response 500 (Obj [(''error'', Str ''Failed to generate investor matches'')]), h'))"

definition post_readiness ::
  "LanguageServiceClient \<Rightarrow> string \<Rightarrow> string \<Rightarrow> string \<Rightarrow> call list \<Rightarrow> response \<times> call list" where
  "post_readiness languageClient business financials team h =
     (case
        (await (analyzeFundingData languageClient business) (\<lambda>businessAnalysis.
         await (analyzeFundingData languageClient financials) (\<lambda>financialsAnalysis.
         await (analyzeFundingData languageClient team) (\<lambda>teamAnalysis.
         resolve
           (Obj [(''overallScore'',
                    Num (calculateReadinessScore businessAnalysis financialsAnalysis teamAnalysis)),
                 (''businessReadiness'', assessBusinessReadiness businessAnalysis),
                 (''financialReadiness'', assessFinancialReadiness financialsAnalysis),
                 (''teamReadiness'', assessTeamReadiness teamAnalysis),
                 (''improvements'',
                    Arr (map Str (generateReadinessImprovements businessAnalysis financialsAnalysis
                                    teamAnalysis)))]))))) h
      of (Inr assessment, h') \<Rightarrow> (Response 200 (Obj [(''assessment'', assessment)]), h')
       | (Inl err, h') \<Rightarrow> (Response 500 (Obj [(''error'', Str ''Failed to assess funding readiness'')]), h'))"

section \<open>Requests and rejections\<close>

text \<open>
  The requests an extraction makes for a text, in the order the source awaits them
  (\<open>analyzeMarketData\<close>, \<open>analyzeBusinessIdea\<close> and \<open>analyzeFundingData\<close> make
  four, \<open>analyzePitch\<close> three), and whether the client rejects a request made after a given history.
\<close>

definition requests :: "string \<Rightarrow> call list" where
  "requests txt = [(AnalyzeSentiment, txt), (AnalyzeEntities, txt), (AnalyzeSyntax, txt), (ClassifyText, txt)]"

definition requests_pitch :: "string \<Rightarrow> call list" where
  "requests_pitch txt = [(AnalyzeSentiment, txt), (AnalyzeEntities, txt), (AnalyzeSyntax, txt)]"

definition rejected :: "LanguageServiceClient \<Rightarrow> call list \<Rightarrow> call \<Rightarrow> bool" where
  "rejected c h r =
     (case r of
        (AnalyzeSentiment, txt) \<Rightarrow> isl (analyzeSentiment c h txt)
      | (AnalyzeEntities, txt) \<Rightarrow> isl (analyzeEntities c h txt)
      | (AnalyzeSyntax, txt) \<Rightarrow> isl (analyzeSyntax c h txt)
      | (ClassifyText, txt) \<Rightarrow> isl (classifyText c h txt))"

text \<open>
  The failure policy in the spec's words: the first failure aborts the request and
  nothing is tried again. \<open>firstRejectionAt c h rs k\<close> says that, starting from history
  \<open>h\<close> and making the requests \<open>rs\<close> one after the other, request number \<open>k\<close> is the
  first one the client rejects. \<open>runRequests\<close> makes the requests in order and stops
  at the first rejection; it returns whether all were accepted and the history reached.
\<close>

definition firstRejectionAt :: "LanguageServiceClient \<Rightarrow> call list \<Rightarrow> call list \<Rightarrow> nat \<Rightarrow> bool" where
  "firstRejectionAt c h rs k \<longleftrightarrow>
     k < length rs \<and> rejected c (h @ take k rs) (rs ! k)
     \<and> (\<forall>j<k. \<not> rejected c (h @ take j rs) (rs ! j))"

fun runRequests :: "LanguageServiceClient \<Rightarrow> call list \<Rightarrow> call list \<Rightarrow> bool \<times> call list" where
  "runRequests c [] h = (True, h)"
| "runRequests c (r # rs) h = (if rejected c h r then (False, h @ [r]) else runRequests c rs (h @ [r]))"

section \<open>Example inputs\<close>

text \<open>
  Constructors for the concrete inputs at which the theorems below are evaluated: an
  entity of type \<open>'OTHER'\<close> without metadata, and an analysis without sentences and
  categories.
\<close>

definition mkEntity :: "string \<Rightarrow> real \<Rightarrow> real \<Rightarrow> Entity" where
  "mkEntity n sal sc =
     \<lparr>name = n, type = ''OTHER'', metadata = [], salience = sal,
      Entity.sentiment = \<lparr>score = sc, magnitude = \<bar>sc\<bar>\<rparr>\<rparr>"

definition mkSignal :: "real \<Rightarrow> real \<Rightarrow> Entity list \<Rightarrow> TextSignal" where
  "mkSignal sc mag es =
     \<lparr>sentiment = \<lparr>score = sc, magnitude = mag\<rparr>, entities = es,
      syntax = \<lparr>sentences = []\<rparr>, categories = []\<rparr>"

text \<open>
  Two clients: \<open>steadyClient\<close> accepts every request and always returns the same
  sentiment, entities and sentences, with no categories; \<open>flakyClient n\<close> rejects the
  request made when \<open>n\<close> requests have been made before, and accepts every other one,
  so that the same request made again would be accepted.
\<close>

definition steadyClient :: "Sentiment \<Rightarrow> Entity list \<Rightarrow> Sentence list \<Rightarrow> LanguageServiceClient" where
  "steadyClient s es ss =
     \<lparr>analyzeSentiment = (\<lambda>h t. Inr s),
      analyzeEntities = (\<lambda>h t. Inr es),
      analyzeSyntax = (\<lambda>h t. Inr \<lparr>sentences = ss\<rparr>),
      classifyText = (\<lambda>h t. Inr None)\<rparr>"

definition flakyClient :: "nat \<Rightarrow> LanguageServiceClient" where
  "flakyClient n =
     \<lparr>analyzeSentiment =
        (\<lambda>h t. if length h = n then Inl (Rejected ''UNAVAILABLE'') else Inr \<lparr>score = 0.5, magnitude = 0.5\<rparr>),
      analyzeEntities = (\<lambda>h t. if length h = n then Inl (Rejected ''UNAVAILABLE'') else Inr []),
      analyzeSyntax = (\<lambda>h t. if length h = n then Inl (Rejected ''UNAVAILABLE'') else Inr \<lparr>sentences = []\<rparr>),
      classifyText = (\<lambda>h t. if length h = n then Inl (Rejected ''UNAVAILABLE'') else Inr None)\<rparr>"

lemmas fixture_defs = mkEntity_def mkSignal_def toLowerCase_def lowerChar_def

lemmas async_defs = await_def request_def resolve_def

section \<open>The match score\<close>

lemma foldl_add_ten:
  "foldl (\<lambda>acc e. if e \<in> S then acc + 10 else acc) (a::real) xs
     = a + 10 * real (length (filter (\<lambda>e. e \<in> S) xs))"
  by (induction xs arbitrary: a) (simp_all add: algebra_simps)

lemma calculateMatchScore_closed:
  "calculateMatchScore p r =
     min 100 ((score (sentiment p) + 1) * 50
              + 10 * real (length (filter
                  (\<lambda>e. toLowerCase (name e) \<in> set (map (\<lambda>e. toLowerCase (name e)) (entities p)))
                  (entities r))))"
  by (simp add: calculateMatchScore_def Let_def foldl_add_ten filter_map o_def)

lemma length_filter_distinct_card:
  assumes "distinct (map f xs)"
  shows "length (filter (\<lambda>e. f e \<in> S) xs) = card (f ` set xs \<inter> S)"
proof -
  have "length (filter (\<lambda>e. f e \<in> S) xs) = length (filter (\<lambda>n. n \<in> S) (map f xs))"
    by (simp add: filter_map o_def)
  also have "\<dots> = card (set (filter (\<lambda>n. n \<in> S) (map f xs)))"
    by (rule distinct_card [symmetric], rule distinct_filter, rule assms)
  also have "set (filter (\<lambda>n. n \<in> S) (map f xs)) = f ` set xs \<inter> S"
    by auto
  finally show ?thesis .
qed

text \<open>
  Claim C1. For a pitch and a requirements analysis whose document sentiment scores lie
  in [-1,1], \<open>calculateMatchScore\<close> is the minimum of 100 and the base
  \<open>(pitch score + 1) * 50\<close> plus 10 for each requirements entity whose lower-cased name
  is among the lower-cased names of the pitch entities. With base sentiment 0 and exactly
  one such requirements entity the score is 60; the same holds when the lower-cased
  requirement names are pairwise different and the two sets of lower-cased names share
  exactly one name.
\<close>

theorem calculateMatchScore_formula:
  assumes "- 1 \<le> score (sentiment pitchAnalysis)" and "score (sentiment pitchAnalysis) \<le> 1"
    and "- 1 \<le> score (sentiment requirementsAnalysis)" and "score (sentiment requirementsAnalysis) \<le> 1"
  shows "calculateMatchScore pitchAnalysis requirementsAnalysis =
           min 100 ((score (sentiment pitchAnalysis) + 1) * 50
                    + 10 * real (length (filter
                        (\<lambda>e. toLowerCase (name e) \<in> set (map (\<lambda>e. toLowerCase (name e)) (entities pitchAnalysis)))
                        (entities requirementsAnalysis))))
         \<and> (score (sentiment pitchAnalysis) = 0
              \<and> length (filter
                   (\<lambda>e. toLowerCase (name e) \<in> set (map (\<lambda>e. toLowerCase (name e)) (entities pitchAnalysis)))
                   (entities requirementsAnalysis)) = 1
            \<longrightarrow> calculateMatchScore pitchAnalysis requirementsAnalysis = 60)
         \<and> (score (sentiment pitchAnalysis) = 0
              \<and> distinct (map (\<lambda>e. toLowerCase (name e)) (entities requirementsAnalysis))
              \<and> card ((\<lambda>e. toLowerCase (name e)) ` set (entities requirementsAnalysis)
                      \<inter> (\<lambda>e. toLowerCase (name e)) ` set (entities pitchAnalysis)) = 1
            \<longrightarrow> calculateMatchScore pitchAnalysis requirementsAnalysis = 60)"
proof (intro conjI impI)
  show "calculateMatchScore pitchAnalysis requirementsAnalysis =
           min 100 ((score (sentiment pitchAnalysis) + 1) * 50
                    + 10 * real (length (filter
                        (\<lambda>e. toLowerCase (name e) \<in> set (map (\<lambda>e. toLowerCase (name e)) (entities pitchAnalysis)))
                        (entities requirementsAnalysis))))"
    by (rule calculateMatchScore_closed)
next
  assume "score (sentiment pitchAnalysis) = 0
            \<and> length (filter
                 (\<lambda>e. toLowerCase (name e) \<in> set (map (\<lambda>e. toLowerCase (name e)) (entities pitchAnalysis)))
                 (entities requirementsAnalysis)) = 1"
  then show "calculateMatchScore pitchAnalysis requirementsAnalysis = 60"
    by (simp add: calculateMatchScore_closed)
next
  assume a: "score (sentiment pitchAnalysis) = 0
              \<and> distinct (map (\<lambda>e. toLowerCase (name e)) (entities requirementsAnalysis))
              \<and> card ((\<lambda>e. toLowerCase (name e)) ` set (entities requirementsAnalysis)
                      \<inter> (\<lambda>e. toLowerCase (name e)) ` set (entities pitchAnalysis)) = 1"
  then have d: "distinct (map (\<lambda>e. toLowerCase (name e)) (entities requirementsAnalysis))"
    by blast
  have "length (filter
           (\<lambda>e. toLowerCase (name e) \<in> set (map (\<lambda>e. toLowerCase (name e)) (entities pitchAnalysis)))
           (entities requirementsAnalysis)) = 1"
    using length_filter_distinct_card
            [OF d, of "set (map (\<lambda>e. toLowerCase (name e)) (entities pitchAnalysis))"] a
    by simp
  with a show "calculateMatchScore pitchAnalysis requirementsAnalysis = 60"
    by (simp add: calculateMatchScore_closed)
qed

theorem calculateMatchScore_formula_witness:
  "- 1 \<le> score (sentiment (mkSignal 0 0.4 [mkEntity ''FinTech'' 0.5 0.1]))
   \<and> score (sentiment (mkSignal 0 0.4 [mkEntity ''FinTech'' 0.5 0.1])) \<le> 1
   \<and> - 1 \<le> score (sentiment (mkSignal 0.2 0.3 [mkEntity ''fintech'' 0.6 0, mkEntity ''Seed'' 0.3 0]))
   \<and> score (sentiment (mkSignal 0.2 0.3 [mkEntity ''fintech'' 0.6 0, mkEntity ''Seed'' 0.3 0])) \<le> 1
   \<and> score (sentiment (mkSignal 0 0.4 [mkEntity ''FinTech'' 0.5 0.1])) = 0
   \<and> length (filter
         (\<lambda>e. toLowerCase (name e)
                 \<in> set (map (\<lambda>e. toLowerCase (name e)) (entities (mkSignal 0 0.4 [mkEntity ''FinTech'' 0.5 0.1]))))
         (entities (mkSignal 0.2 0.3 [mkEntity ''fintech'' 0.6 0, mkEntity ''Seed'' 0.3 0]))) = 1
   \<and> distinct (map (\<lambda>e. toLowerCase (name e))
                   (entities (mkSignal 0.2 0.3 [mkEntity ''fintech'' 0.6 0, mkEntity ''Seed'' 0.3 0])))
   \<and> card ((\<lambda>e. toLowerCase (name e))
               ` set (entities (mkSignal 0.2 0.3 [mkEntity ''fintech'' 0.6 0, mkEntity ''Seed'' 0.3 0]))
            \<inter> (\<lambda>e. toLowerCase (name e)) ` set (entities (mkSignal 0 0.4 [mkEntity ''FinTech'' 0.5 0.1]))) = 1
   \<and> calculateMatchScore (mkSignal 0 0.4 [mkEntity ''FinTech'' 0.5 0.1])
        (mkSignal 0.2 0.3 [mkEntity ''fintech'' 0.6 0, mkEntity ''Seed'' 0.3 0]) = 60"
  using calculateMatchScore_formula
          [of "mkSignal 0 0.4 [mkEntity ''FinTech'' 0.5 0.1]"
              "mkSignal 0.2 0.3 [mkEntity ''fintech'' 0.6 0, mkEntity ''Seed'' 0.3 0]"]
  by (simp add: fixture_defs)

section \<open>Key factors\<close>

text \<open>
  Claim C2 says that for document sentiment 0.5 and three entities of salience 0.5, 0.25
  and 0.05 the key-factor extraction returns the first two entities. The filter of
  \<open>extractKeyFactors\<close> keeps an entity when its salience is greater than 0.3, which
  0.25 is not: at such an input the result is the one factor built from the first
  entity, and it is not the list of the factors of the first two.
\<close>

theorem extractKeyFactors_scenario_counterexample:
  "extractKeyFactors (mkSignal 0.5 0.5 [mkEntity ''market'' 0.5 0, mkEntity ''growth'' 0.25 0, mkEntity ''team'' 0.05 0])
     = [Obj [(''factor'', Str ''market''), (''importance'', Num 0.5), (''sentiment'', Num 0)]]
   \<and> extractKeyFactors (mkSignal 0.5 0.5 [mkEntity ''market'' 0.5 0, mkEntity ''growth'' 0.25 0, mkEntity ''team'' 0.05 0])
     \<noteq> [Obj [(''factor'', Str ''market''), (''importance'', Num 0.5), (''sentiment'', Num 0)],
         Obj [(''factor'', Str ''growth''), (''importance'', Num 0.25), (''sentiment'', Num 0)]]"
  by (simp add: extractKeyFactors_def fixture_defs)

text \<open>
  Claim C2, amended. For document sentiment 0.5 and exactly three entities of salience
  0.5, 0.25 and 0.05 in that order, \<open>extractKeyFactors\<close> returns exactly one key
  factor, the one of the first entity (its name, salience and sentiment score).
\<close>

theorem extractKeyFactors_scenario:
  assumes "score (sentiment analysis) = 0.5"
    and "entities analysis = [e1, e2, e3]"
    and "salience e1 = 0.5" and "salience e2 = 0.25" and "salience e3 = 0.05"
  shows "extractKeyFactors analysis =
           [Obj [(''factor'', Str (name e1)),
                 (''importance'', Num (salience e1)),
                 (''sentiment'', Num (score (Entity.sentiment e1)))]]"
  using assms by (simp add: extractKeyFactors_def)

theorem extractKeyFactors_scenario_witness:
  "score (sentiment (mkSignal 0.5 0.5 [mkEntity ''market'' 0.5 0.2, mkEntity ''growth'' 0.25 0, mkEntity ''team'' 0.05 0])) = 0.5
   \<and> entities (mkSignal 0.5 0.5 [mkEntity ''market'' 0.5 0.2, mkEntity ''growth'' 0.25 0, mkEntity ''team'' 0.05 0])
       = [mkEntity ''market'' 0.5 0.2, mkEntity ''growth'' 0.25 0, mkEntity ''team'' 0.05 0]
   \<and> salience (mkEntity ''market'' 0.5 0.2) = 0.5
   \<and> salience (mkEntity ''growth'' 0.25 0) = 0.25
   \<and> salience (mkEntity ''team'' 0.05 0) = 0.05
   \<and> extractKeyFactors (mkSignal 0.5 0.5 [mkEntity ''market'' 0.5 0.2, mkEntity ''growth'' 0.25 0, mkEntity ''team'' 0.05 0])
       = [Obj [(''factor'', Str ''market''), (''importance'', Num 0.5), (''sentiment'', Num 0.2)]]"
  using extractKeyFactors_scenario
          [of "mkSignal 0.5 0.5 [mkEntity ''market'' 0.5 0.2, mkEntity ''growth'' 0.25 0, mkEntity ''team'' 0.05 0]"
              "mkEntity ''market'' 0.5 0.2" "mkEntity ''growth'' 0.25 0" "mkEntity ''team'' 0.05 0"]
  by (simp add: fixture_defs)

section \<open>The readiness score\<close>

text \<open>
  Claim C3. For three analyses whose document sentiment scores lie in [-1,1],
  \<open>calculateReadinessScore\<close> is the minimum of 100 and
  \<open>(business + 1) * 20 + (financial + 1) * 20 + (team + 1) * 10\<close>. The financial
  component is never negative, and for financial sentiment -1 it is 0: the score is then
  the one of the other two components.
\<close>

theorem calculateReadinessScore_formula:
  assumes "- 1 \<le> score (sentiment businessAnalysis)" and "score (sentiment businessAnalysis) \<le> 1"
    and "- 1 \<le> score (sentiment financialsAnalysis)" and "score (sentiment financialsAnalysis) \<le> 1"
    and "- 1 \<le> score (sentiment teamAnalysis)" and "score (sentiment teamAnalysis) \<le> 1"
  shows "calculateReadinessScore businessAnalysis financialsAnalysis teamAnalysis =
           min 100 ((score (sentiment businessAnalysis) + 1) * 20
                    + (score (sentiment financialsAnalysis) + 1) * 20
                    + (score (sentiment teamAnalysis) + 1) * 10)
         \<and> 0 \<le> (score (sentiment financialsAnalysis) + 1) * 20
         \<and> (score (sentiment financialsAnalysis) = - 1 \<longrightarrow>
              (score (sentiment financialsAnalysis) + 1) * 20 = 0
              \<and> calculateReadinessScore businessAnalysis financialsAnalysis teamAnalysis =
                  min 100 ((score (sentiment businessAnalysis) + 1) * 20
                           + (score (sentiment teamAnalysis) + 1) * 10))"
  using assms by (simp add: calculateReadinessScore_def)

theorem calculateReadinessScore_formula_witness:
  "- 1 \<le> score (sentiment (mkSignal 0.5 0.5 [])) \<and> score (sentiment (mkSignal 0.5 0.5 [])) \<le> 1
   \<and> - 1 \<le> score (sentiment (mkSignal (- 1) 1 [])) \<and> score (sentiment (mkSignal (- 1) 1 [])) \<le> 1
   \<and> - 1 \<le> score (sentiment (mkSignal 0 0 [])) \<and> score (sentiment (mkSignal 0 0 [])) \<le> 1
   \<and> score (sentiment (mkSignal (- 1) 1 [])) = - 1
   \<and> calculateReadinessScore (mkSignal 0.5 0.5 []) (mkSignal (- 1) 1 []) (mkSignal 0 0 []) = 40"
  using calculateReadinessScore_formula [of "mkSignal 0.5 0.5 []" "mkSignal (- 1) 1 []" "mkSignal 0 0 []"]
  by (simp add: fixture_defs)

section \<open>Both scores stay in range\<close>

text \<open>
  Claim C4. For document sentiment scores in [-1,1], the match score and the readiness
  score lie in [0,100], whatever the sentiment magnitudes and the entity lists are.
\<close>

theorem scores_clamped:
  assumes "- 1 \<le> score (sentiment pitchAnalysis)" and "score (sentiment pitchAnalysis) \<le> 1"
    and "- 1 \<le> score (sentiment requirementsAnalysis)" and "score (sentiment requirementsAnalysis) \<le> 1"
    and "- 1 \<le> score (sentiment businessAnalysis)" and "score (sentiment businessAnalysis) \<le> 1"
    and "- 1 \<le> score (sentiment financialsAnalysis)" and "score (sentiment financialsAnalysis) \<le> 1"
    and "- 1 \<le> score (sentiment teamAnalysis)" and "score (sentiment teamAnalysis) \<le> 1"
  shows "0 \<le> calculateMatchScore pitchAnalysis requirementsAnalysis
         \<and> calculateMatchScore pitchAnalysis requirementsAnalysis \<le> 100
         \<and> 0 \<le> calculateReadinessScore businessAnalysis financialsAnalysis teamAnalysis
         \<and> calculateReadinessScore businessAnalysis financialsAnalysis teamAnalysis \<le> 100"
proof -
  have base: "0 \<le> (score (sentiment pitchAnalysis) + 1) * 50"
    using assms(1) by simp
  have "0 \<le> calculateMatchScore pitchAnalysis requirementsAnalysis
        \<and> calculateMatchScore pitchAnalysis requirementsAnalysis \<le> 100"
    using base by (simp add: calculateMatchScore_closed)
  moreover have "0 \<le> calculateReadinessScore businessAnalysis financialsAnalysis teamAnalysis
        \<and> calculateReadinessScore businessAnalysis financialsAnalysis teamAnalysis \<le> 100"
    using assms(5,7,9) by (simp add: calculateReadinessScore_def)
  ultimately show ?thesis by blast
qed

theorem scores_clamped_witness:
  "- 1 \<le> score (sentiment (mkSignal 1 250 [mkEntity ''AI'' 0.9 0, mkEntity ''Cloud'' 0.5 0]))
   \<and> score (sentiment (mkSignal 1 250 [mkEntity ''AI'' 0.9 0, mkEntity ''Cloud'' 0.5 0])) \<le> 1
   \<and> - 1 \<le> score (sentiment (mkSignal (- 1) 30 [mkEntity ''ai'' 0.9 0, mkEntity ''cloud'' 0.5 0]))
   \<and> score (sentiment (mkSignal (- 1) 30 [mkEntity ''ai'' 0.9 0, mkEntity ''cloud'' 0.5 0])) \<le> 1
   \<and> - 1 \<le> score (sentiment (mkSignal (- 1) 7 [])) \<and> score (sentiment (mkSignal (- 1) 7 [])) \<le> 1
   \<and> - 1 \<le> score (sentiment (mkSignal 1 90 [])) \<and> score (sentiment (mkSignal 1 90 [])) \<le> 1
   \<and> - 1 \<le> score (sentiment (mkSignal 0.5 0 [])) \<and> score (sentiment (mkSignal 0.5 0 [])) \<le> 1
   \<and> calculateMatchScore (mkSignal 1 250 [mkEntity ''AI'' 0.9 0, mkEntity ''Cloud'' 0.5 0])
        (mkSignal (- 1) 30 [mkEntity ''ai'' 0.9 0, mkEntity ''cloud'' 0.5 0]) = 100
   \<and> calculateReadinessScore (mkSignal (- 1) 7 []) (mkSignal 1 90 []) (mkSignal 0.5 0 []) = 55"
  using scores_clamped
          [of "mkSignal 1 250 [mkEntity ''AI'' 0.9 0, mkEntity ''Cloud'' 0.5 0]"
              "mkSignal (- 1) 30 [mkEntity ''ai'' 0.9 0, mkEntity ''cloud'' 0.5 0]"
              "mkSignal (- 1) 7 []" "mkSignal 1 90 []" "mkSignal 0.5 0 []"]
  by (simp add: fixture_defs calculateMatchScore_def calculateReadinessScore_def)

section \<open>Salience thresholds\<close>

lemma filter_salience_mono:
  fixes T1 T2 :: real
  assumes "T2 \<le> T1"
  shows "filter (\<lambda>e. salience e > T1) es = filter (\<lambda>e. salience e > T1) (filter (\<lambda>e. salience e > T2) es)"
  using assms by (induction es) auto

text \<open>
  Claim C5. Filtering an entity list by salience is monotonic in the threshold: for
  thresholds \<open>T2 \<le> T1\<close> the entities kept by \<open>salience > T1\<close> are among those kept
  by \<open>salience > T2\<close>, in the same order. For 0.3 and 0.2 this relates the two helpers
  that use these filters: the names and saliences of the key factors form a sublist of
  the names and saliences of the resources of the same analysis.
\<close>

theorem salience_filter_monotonic:
  fixes T1 T2 :: real
  assumes "T2 \<le> T1"
  shows "set (filter (\<lambda>e. salience e > T1) (entities analysis))
           \<subseteq> set (filter (\<lambda>e. salience e > T2) (entities analysis))
         \<and> subseq (filter (\<lambda>e. salience e > T1) (entities analysis))
                  (filter (\<lambda>e. salience e > T2) (entities analysis))
         \<and> set (filter (\<lambda>e. salience e > 0.3) (entities analysis))
           \<subseteq> set (filter (\<lambda>e. salience e > 0.2) (entities analysis))
         \<and> subseq (map (\<lambda>v. (field ''factor'' v, field ''importance'' v)) (extractKeyFactors analysis))
                  (map (\<lambda>v. (field ''resource'' v, field ''priority'' v)) (analyzeResources analysis))"
proof (intro conjI)
  show "set (filter (\<lambda>e. salience e > T1) (entities analysis))
           \<subseteq> set (filter (\<lambda>e. salience e > T2) (entities analysis))"
    using assms by auto
  show "subseq (filter (\<lambda>e. salience e > T1) (entities analysis))
               (filter (\<lambda>e. salience e > T2) (entities analysis))"
    by (subst filter_salience_mono [OF assms]) (rule subseq_filter_left)
  show "set (filter (\<lambda>e. salience e > 0.3) (entities analysis))
           \<subseteq> set (filter (\<lambda>e. salience e > 0.2) (entities analysis))"
    by auto
  have le: "(0.2::real) \<le> 0.3"
    by simp
  have "subseq (filter (\<lambda>e. salience e > 0.3) (entities analysis))
               (filter (\<lambda>e. salience e > 0.2) (entities analysis))"
    by (subst filter_salience_mono [OF le]) (rule subseq_filter_left)
  then have "subseq (map (\<lambda>e. (Some (Str (name e)), Some (Num (salience e))))
                       (filter (\<lambda>e. salience e > 0.3) (entities analysis)))
                    (map (\<lambda>e. (Some (Str (name e)), Some (Num (salience e))))
                       (filter (\<lambda>e. salience e > 0.2) (entities analysis)))"
    by (rule subseq_map)
  then show "subseq (map (\<lambda>v. (field ''factor'' v, field ''importance'' v)) (extractKeyFactors analysis))
                  (map (\<lambda>v. (field ''resource'' v, field ''priority'' v)) (analyzeResources analysis))"
    by (simp add: extractKeyFactors_def analyzeResources_def field_def o_def)
qed

theorem salience_filter_monotonic_witness:
  "(0.2::real) \<le> 0.3
   \<and> set (filter (\<lambda>e. salience e > 0.3)
              (entities (mkSignal 0 0 [mkEntity ''a'' 0.5 0, mkEntity ''b'' 0.25 0, mkEntity ''c'' 0.05 0])))
       = {mkEntity ''a'' 0.5 0}
   \<and> set (filter (\<lambda>e. salience e > 0.2)
              (entities (mkSignal 0 0 [mkEntity ''a'' 0.5 0, mkEntity ''b'' 0.25 0, mkEntity ''c'' 0.05 0])))
       = {mkEntity ''a'' 0.5 0, mkEntity ''b'' 0.25 0}
   \<and> subseq (map (\<lambda>v. (field ''factor'' v, field ''importance'' v))
                (extractKeyFactors (mkSignal 0 0 [mkEntity ''a'' 0.5 0, mkEntity ''b'' 0.25 0, mkEntity ''c'' 0.05 0])))
             (map (\<lambda>v. (field ''resource'' v, field ''priority'' v))
                (analyzeResources (mkSignal 0 0 [mkEntity ''a'' 0.5 0, mkEntity ''b'' 0.25 0, mkEntity ''c'' 0.05 0])))"
  using salience_filter_monotonic
          [of "0.2" "0.3" "mkSignal 0 0 [mkEntity ''a'' 0.5 0, mkEntity ''b'' 0.25 0, mkEntity ''c'' 0.05 0]"]
  by (simp add: fixture_defs)

section \<open>SWOT lists of analyses without entities\<close>

lemma foldl_push_if:
  "foldl (\<lambda>acc c. if P c then acc @ [f c] else acc) a cs = a @ map f (filter P cs)"
  by (induction cs arbitrary: a) simp_all

text \<open>
  Claim C6 says that with an empty entity list every SWOT list is empty, whatever the
  document sentiment and the categories are. The SWOT helpers also push items that depend
  on the document sentiment alone: for an idea and a market analysis of sentiment 0.5 and
  no entities, the strengths and the opportunities each hold one item.
\<close>

theorem swot_empty_entities_counterexample:
  "entities (mkSignal 0.5 0.5 []) = []
   \<and> extractStrengths (mkSignal 0.5 0.5 []) (mkSignal 0.5 0.5 [])
       = [''Strong positive market perception potential'']
   \<and> extractOpportunities_swot (mkSignal 0.5 0.5 []) = [''Favorable market conditions'']"
  by (simp add: extractStrengths_def extractOpportunities_swot_def fixture_defs)

text \<open>
  Claim C6, amended. When the idea, market and competition analyses have no entities,
  each SWOT list is an array holding only the items that do not come from entities: the
  strengths hold the sentiment item exactly when the idea sentiment is above 0.3, the
  weaknesses exactly when it is below 0, the threats exactly when the market sentiment
  is below -0.2, and the opportunities hold the sentiment item when the market sentiment
  is above 0, followed by one item per market category of confidence above 0.7. All four
  lists are empty when the idea sentiment is in [0, 0.3], the market sentiment in
  [-0.2, 0] and no market category has confidence above 0.7. The helpers are total:
  each returns an array for every input.
\<close>

theorem swot_empty_entities:
  assumes "entities ideaAnalysis = []" and "entities marketAnalysis = []"
    and "entities competitionAnalysis = []"
  shows "extractStrengths ideaAnalysis marketAnalysis =
           (if score (sentiment ideaAnalysis) > 0.3
              then [''Strong positive market perception potential''] else [])
         \<and> extractWeaknesses ideaAnalysis competitionAnalysis =
           (if score (sentiment ideaAnalysis) < 0
              then [''Potential negative market perception''] else [])
         \<and> extractOpportunities_swot marketAnalysis =
           (if score (sentiment marketAnalysis) > 0 then [''Favorable market conditions''] else [])
           @ map (\<lambda>c. ''High potential in '' @ Category.name c)
                 (filter (\<lambda>c. confidence c > 0.7) (categories marketAnalysis))
         \<and> extractThreats competitionAnalysis marketAnalysis =
           (if score (sentiment marketAnalysis) < - 0.2
              then [''Challenging market conditions''] else [])
         \<and> (0 \<le> score (sentiment ideaAnalysis) \<and> score (sentiment ideaAnalysis) \<le> 0.3
              \<and> - 0.2 \<le> score (sentiment marketAnalysis) \<and> score (sentiment marketAnalysis) \<le> 0
              \<and> (\<forall>c \<in> set (categories marketAnalysis). confidence c \<le> 0.7)
            \<longrightarrow> extractStrengths ideaAnalysis marketAnalysis = []
                \<and> extractWeaknesses ideaAnalysis competitionAnalysis = []
                \<and> extractOpportunities_swot marketAnalysis = []
                \<and> extractThreats competitionAnalysis marketAnalysis = [])"
proof -
  have s: "extractStrengths ideaAnalysis marketAnalysis =
           (if score (sentiment ideaAnalysis) > 0.3
              then [''Strong positive market perception potential''] else [])"
    using assms(2) by (simp add: extractStrengths_def)
  have w: "extractWeaknesses ideaAnalysis competitionAnalysis =
           (if score (sentiment ideaAnalysis) < 0
              then [''Potential negative market perception''] else [])"
    using assms(3) by (simp add: extractWeaknesses_def)
  have o: "extractOpportunities_swot marketAnalysis =
           (if score (sentiment marketAnalysis) > 0 then [''Favorable market conditions''] else [])
           @ map (\<lambda>c. ''High potential in '' @ Category.name c)
                 (filter (\<lambda>c. confidence c > 0.7) (categories marketAnalysis))"
    by (simp add: extractOpportunities_swot_def foldl_push_if)
  have t: "extractThreats competitionAnalysis marketAnalysis =
           (if score (sentiment marketAnalysis) < - 0.2
              then [''Challenging market conditions''] else [])"
    using assms(3) by (simp add: extractThreats_def)
  have e: "0 \<le> score (sentiment ideaAnalysis) \<and> score (sentiment ideaAnalysis) \<le> 0.3
              \<and> - 0.2 \<le> score (sentiment marketAnalysis) \<and> score (sentiment marketAnalysis) \<le> 0
              \<and> (\<forall>c \<in> set (categories marketAnalysis). confidence c \<le> 0.7)
            \<longrightarrow> extractStrengths ideaAnalysis marketAnalysis = []
                \<and> extractWeaknesses ideaAnalysis competitionAnalysis = []
                \<and> extractOpportunities_swot marketAnalysis = []
                \<and> extractThreats competitionAnalysis marketAnalysis = []"
    unfolding s w o t by (auto simp: filter_empty_conv not_less)
  from s w o t e show ?thesis by blast
qed

theorem swot_empty_entities_witness:
  "entities (mkSignal 0.1 0.8 []) = []
   \<and> entities ((mkSignal (- 0.1) 0.2 [])\<lparr>categories := [\<lparr>Category.name = ''/Finance'', confidence = 0.6\<rparr>]\<rparr>) = []
   \<and> entities (mkSignal 0.9 0.9 []) = []
   \<and> 0 \<le> score (sentiment (mkSignal 0.1 0.8 [])) \<and> score (sentiment (mkSignal 0.1 0.8 [])) \<le> 0.3
   \<and> - 0.2 \<le> score (sentiment ((mkSignal (- 0.1) 0.2 [])\<lparr>categories := [\<lparr>Category.name = ''/Finance'', confidence = 0.6\<rparr>]\<rparr>))
   \<and> score (sentiment ((mkSignal (- 0.1) 0.2 [])\<lparr>categories := [\<lparr>Category.name = ''/Finance'', confidence = 0.6\<rparr>]\<rparr>)) \<le> 0
   \<and> list_all (\<lambda>c. confidence c \<le> 0.7)
        (categories ((mkSignal (- 0.1) 0.2 [])\<lparr>categories := [\<lparr>Category.name = ''/Finance'', confidence = 0.6\<rparr>]\<rparr>))
   \<and> extractStrengths (mkSignal 0.1 0.8 [])
        ((mkSignal (- 0.1) 0.2 [])\<lparr>categories := [\<lparr>Category.name = ''/Finance'', confidence = 0.6\<rparr>]\<rparr>) = []
   \<and> extractWeaknesses (mkSignal 0.1 0.8 []) (mkSignal 0.9 0.9 []) = []
   \<and> extractOpportunities_swot
        ((mkSignal (- 0.1) 0.2 [])\<lparr>categories := [\<lparr>Category.name = ''/Finance'', confidence = 0.6\<rparr>]\<rparr>) = []
   \<and> extractThreats (mkSignal 0.9 0.9 [])
        ((mkSignal (- 0.1) 0.2 [])\<lparr>categories := [\<lparr>Category.name = ''/Finance'', confidence = 0.6\<rparr>]\<rparr>) = []"
  using swot_empty_entities
          [of "mkSignal 0.1 0.8 []"
              "(mkSignal (- 0.1) 0.2 [])\<lparr>categories := [\<lparr>Category.name = ''/Finance'', confidence = 0.6\<rparr>]\<rparr>"
              "mkSignal 0.9 0.9 []"]
  by (simp add: fixture_defs)

section \<open>Average sentence length\<close>

lemma analyzeStructure_averageLength:
  "field ''averageLength'' (analyzeStructure analysis) =
     Some (if sentences (syntax analysis) = [] then NaN
           else Num (real (sum_list (map (\<lambda>s. length (content (text s))) (sentences (syntax analysis))))
                     / real (length (sentences (syntax analysis)))))"
proof -
  have f: "foldl (\<lambda>acc s. acc + real (length (content (text s)))) a xs
             = a + real (sum_list (map (\<lambda>s. length (content (text s))) xs))" for a xs
    by (induction xs arbitrary: a) simp_all
  show ?thesis
    by (simp add: analyzeStructure_def js_div_def field_def Let_def f)
qed

text \<open>
  Claim C7 asks that for an analysis with zero sentences the average sentence length is
  a defined value, the division being guarded. \<open>analyzeStructure\<close> divides without a
  guard: with no sentences it computes \<open>0 / 0\<close>, and the field \<open>averageLength\<close> of its
  result is \<open>NaN\<close>; the practice-feedback route sends this result with status 200.
\<close>

theorem analyzeStructure_zero_sentences:
  "sentences (syntax (mkSignal 0.5 0.5 [])) = []
   \<and> analyzeStructure (mkSignal 0.5 0.5 [])
       = Obj [(''sentenceCount'', Num 0), (''averageLength'', NaN), (''flow'', Str ''Concise'')]
   \<and> status (fst (post_practice_feedback (steadyClient \<lparr>score = 0.5, magnitude = 0.5\<rparr> [] []) '' '' [])) = 200
   \<and> path [''feedback'', ''structure'', ''averageLength'']
        (body (fst (post_practice_feedback (steadyClient \<lparr>score = 0.5, magnitude = 0.5\<rparr> [] []) '' '' [])))
       = Some NaN"
  by (simp add: analyzeStructure_def js_div_def fixture_defs post_practice_feedback_def
        analyzePitch_def async_defs steadyClient_def field_def)

section \<open>Scores that are not clamped\<close>

lemma post_idea_check_success:
  "analyzeBusinessIdea c idea h = (Inr a, h') \<Longrightarrow>
     status (fst (post_idea_check c idea h)) = 200
     \<and> path [''feasibility'', ''score''] (body (fst (post_idea_check c idea h)))
         = Some (Num (score (sentiment a) * 100))"
  by (simp add: post_idea_check_def await_def resolve_def field_def)

lemma post_practice_feedback_success:
  "analyzePitch c script h = (Inr a, h') \<Longrightarrow>
     status (fst (post_practice_feedback c script h)) = 200
     \<and> path [''feedback'', ''impact'', ''score''] (body (fst (post_practice_feedback c script h)))
         = Some (Num (score (sentiment a) * 100))
     \<and> path [''feedback'', ''clarity'', ''score''] (body (fst (post_practice_feedback c script h)))
         = Some (Num (magnitude (sentiment a) * 100))"
  by (simp add: post_practice_feedback_def await_def resolve_def field_def analyzeImpact_def analyzeClarity_def)

text \<open>
  Claim C10. The idea-check and practice-feedback verdicts expose scores that are not
  clamped. For an analysis with document sentiment score in [-1,1]: the feasibility
  score the idea-check route returns and the impact score of the practice feedback are
  the sentiment score times 100, which is negative whenever the score is negative and
  is -100 for the score -1; the clarity score is the sentiment magnitude times 100, which
  is above 100 whenever the magnitude is above 1.
\<close>

theorem unclamped_scores:
  assumes "- 1 \<le> score (sentiment analysis)" and "score (sentiment analysis) \<le> 1"
  shows "(analyzeBusinessIdea c idea h = (Inr analysis, h1) \<longrightarrow>
            status (fst (post_idea_check c idea h)) = 200
            \<and> path [''feasibility'', ''score''] (body (fst (post_idea_check c idea h)))
                = Some (Num (score (sentiment analysis) * 100)))
         \<and> (analyzePitch c pitchScript h = (Inr analysis, h2) \<longrightarrow>
            status (fst (post_practice_feedback c pitchScript h)) = 200
            \<and> path [''feedback'', ''impact'', ''score''] (body (fst (post_practice_feedback c pitchScript h)))
                = Some (Num (score (sentiment analysis) * 100))
            \<and> path [''feedback'', ''clarity'', ''score''] (body (fst (post_practice_feedback c pitchScript h)))
                = Some (Num (magnitude (sentiment analysis) * 100)))
         \<and> field ''score'' (analyzeImpact analysis) = Some (Num (score (sentiment analysis) * 100))
         \<and> field ''score'' (analyzeClarity analysis) = Some (Num (magnitude (sentiment analysis) * 100))
         \<and> - 100 \<le> score (sentiment analysis) * 100
         \<and> (score (sentiment analysis) < 0 \<longrightarrow> score (sentiment analysis) * 100 < 0)
         \<and> (score (sentiment analysis) = - 1 \<longrightarrow> score (sentiment analysis) * 100 = - 100)
         \<and> (magnitude (sentiment analysis) > 1 \<longrightarrow> magnitude (sentiment analysis) * 100 > 100)"
proof (intro conjI impI)
  assume "analyzeBusinessIdea c idea h = (Inr analysis, h1)"
  from post_idea_check_success [OF this]
  show "status (fst (post_idea_check c idea h)) = 200"
    and "path [''feasibility'', ''score''] (body (fst (post_idea_check c idea h)))
           = Some (Num (score (sentiment analysis) * 100))"
    by blast+
next
  assume "analyzePitch c pitchScript h = (Inr analysis, h2)"
  from post_practice_feedback_success [OF this]
  show "status (fst (post_practice_feedback c pitchScript h)) = 200"
    and "path [''feedback'', ''impact'', ''score''] (body (fst (post_practice_feedback c pitchScript h)))
           = Some (Num (score (sentiment analysis) * 100))"
    and "path [''feedback'', ''clarity'', ''score''] (body (fst (post_practice_feedback c pitchScript h)))
           = Some (Num (magnitude (sentiment analysis) * 100))"
    by blast+
next
  show "field ''score'' (analyzeImpact analysis) = Some (Num (score (sentiment analysis) * 100))"
    by (simp add: analyzeImpact_def field_def)
  show "field ''score'' (analyzeClarity analysis) = Some (Num (magnitude (sentiment analysis) * 100))"
    by (simp add: analyzeClarity_def field_def)
  show "- 100 \<le> score (sentiment analysis) * 100"
    using assms(1) by simp
next
  assume "score (sentiment analysis) < 0"
  then show "score (sentiment analysis) * 100 < 0" by simp
next
  assume "score (sentiment analysis) = - 1"
  then show "score (sentiment analysis) * 100 = - 100" by simp
next
  assume "magnitude (sentiment analysis) > 1"
  then show "magnitude (sentiment analysis) * 100 > 100" by simp
qed

theorem unclamped_scores_witness:
  "- 1 \<le> score (sentiment (mkSignal (- 1) 1.5 [])) \<and> score (sentiment (mkSignal (- 1) 1.5 [])) \<le> 1
   \<and> analyzeBusinessIdea (steadyClient \<lparr>score = - 1, magnitude = 1.5\<rparr> [] []) ''an idea'' []
       = (Inr (mkSignal (- 1) 1.5 []), requests ''an idea'')
   \<and> analyzePitch (steadyClient \<lparr>score = - 1, magnitude = 1.5\<rparr> [] []) ''a pitch'' []
       = (Inr (mkSignal (- 1) 1.5 []), requests_pitch ''a pitch'')
   \<and> score (sentiment (mkSignal (- 1) 1.5 [])) < 0
   \<and> score (sentiment (mkSignal (- 1) 1.5 [])) = - 1
   \<and> magnitude (sentiment (mkSignal (- 1) 1.5 [])) > 1
   \<and> path [''feasibility'', ''score'']
        (body (fst (post_idea_check (steadyClient \<lparr>score = - 1, magnitude = 1.5\<rparr> [] []) ''an idea'' [])))
       = Some (Num (- 100))
   \<and> path [''feedback'', ''impact'', ''score'']
        (body (fst (post_practice_feedback (steadyClient \<lparr>score = - 1, magnitude = 1.5\<rparr> [] []) ''a pitch'' [])))
       = Some (Num (- 100))
   \<and> path [''feedback'', ''clarity'', ''score'']
        (body (fst (post_practice_feedback (steadyClient \<lparr>score = - 1, magnitude = 1.5\<rparr> [] []) ''a pitch'' [])))
       = Some (Num 150)"
  using unclamped_scores
          [of "mkSignal (- 1) 1.5 []" "steadyClient \<lparr>score = - 1, magnitude = 1.5\<rparr> [] []"
              "''an idea''" "[]" "requests ''an idea''" "''a pitch''" "requests_pitch ''a pitch''"]
  by (simp add: fixture_defs steadyClient_def analyzeBusinessIdea_def analyzePitch_def async_defs
        requests_def requests_pitch_def)

section \<open>A failed extraction fails the request\<close>

lemma runRequests_append:
  "runRequests c (rs @ rs') h =
     (case runRequests c rs h of (True, h') \<Rightarrow> runRequests c rs' h' | (False, h') \<Rightarrow> (False, h'))"
  by (induction rs arbitrary: h) simp_all

text \<open>
  When request number \<open>k\<close> is the first one rejected, making the requests in order
  stops there: the history is extended by the first \<open>k + 1\<close> requests and no more.
\<close>

lemma runRequests_firstRejectionAt:
  "firstRejectionAt c h rs k \<Longrightarrow> runRequests c rs h = (False, h @ take (Suc k) rs)"
proof (induction rs arbitrary: h k)
  case Nil
  then show ?case by (simp add: firstRejectionAt_def)
next
  case (Cons r rs)
  show ?case
  proof (cases k)
    case 0
    with Cons.prems show ?thesis by (simp add: firstRejectionAt_def)
  next
    case (Suc k')
    from Cons.prems Suc have ok: "\<not> rejected c h r"
      by (auto simp: firstRejectionAt_def)
    have "firstRejectionAt c (h @ [r]) rs k'"
      unfolding firstRejectionAt_def
    proof (intro conjI allI impI)
      show "k' < length rs"
        using Cons.prems Suc by (simp add: firstRejectionAt_def)
      show "rejected c ((h @ [r]) @ take k' rs) (rs ! k')"
        using Cons.prems Suc by (simp add: firstRejectionAt_def)
      fix j assume "j < k'"
      then have "Suc j < k" using Suc by simp
      with Cons.prems have "\<not> rejected c (h @ take (Suc j) (r # rs)) ((r # rs) ! Suc j)"
        unfolding firstRejectionAt_def by blast
      then show "\<not> rejected c ((h @ [r]) @ take j rs) (rs ! j)" by simp
    qed
    from Cons.IH [OF this] ok Suc show ?thesis by simp
  qed
qed

text \<open>Each extraction makes its requests in order and stops at the first rejection.\<close>

lemma analyzeMarketData_run:
  "analyzeMarketData c txt h = (res, h') \<Longrightarrow> runRequests c (requests txt) h = (\<not> isl res, h')"
  by (auto simp: analyzeMarketData_def async_defs requests_def rejected_def split: sum.splits)

lemma analyzeBusinessIdea_run:
  "analyzeBusinessIdea c txt h = (res, h') \<Longrightarrow> runRequests c (requests txt) h = (\<not> isl res, h')"
  by (auto simp: analyzeBusinessIdea_def async_defs requests_def rejected_def split: sum.splits)

lemma analyzeFundingData_run:
  "analyzeFundingData c txt h = (res, h') \<Longrightarrow> runRequests c (requests txt) h = (\<not> isl res, h')"
  by (auto simp: analyzeFundingData_def async_defs requests_def rejected_def split: sum.splits)

lemma analyzePitch_run:
  "analyzePitch c txt h = (res, h') \<Longrightarrow> runRequests c (requests_pitch txt) h = (\<not> isl res, h')"
  by (auto simp: analyzePitch_def async_defs requests_pitch_def rejected_def split: sum.splits)

text \<open>
  Each route: when the requests of its fields, made in order, stop at a rejection, the
  response is status 500 with the route's error message and nothing else.
\<close>

lemma post_analyze_failure:
  assumes "runRequests c (requests t1 @ requests t2 @ requests t3) h = (False, h')"
  shows "post_analyze c t1 t2 t3 h = (Response 500 (Obj [(''error'', Str ''Failed to analyze market'')]), h')"
  using assms
  by (auto simp: post_analyze_def await_def resolve_def runRequests_append
           split: prod.splits sum.splits dest!: analyzeMarketData_run)

lemma post_competitors_failure:
  assumes "runRequests c (requests t1 @ requests t2 @ requests t3) h = (False, h')"
  shows "post_competitors c t1 t2 t3 h = (Response 500 (Obj [(''error'', Str ''Failed to analyze competitors'')]), h')"
  using assms
  by (auto simp: post_competitors_def await_def resolve_def runRequests_append
           split: prod.splits sum.splits dest!: analyzeMarketData_run)

lemma post_strategy_failure:
  assumes "runRequests c (requests t1 @ requests t2 @ requests t3) h = (False, h')"
  shows "post_strategy c t1 t2 t3 h = (Response 500 (Obj [(''error'', Str ''Failed to generate strategy'')]), h')"
  using assms
  by (auto simp: post_strategy_def await_def resolve_def runRequests_append
           split: prod.splits sum.splits dest!: analyzeMarketData_run)

lemma post_generate_deck_failure:
  assumes "runRequests c (requests_pitch t1 @ requests_pitch t2 @ requests_pitch t3) h = (False, h')"
  shows "post_generate_deck c t1 t2 t3 h = (Response 500 (Obj [(''error'', Str ''Failed to generate pitch deck'')]), h')"
  using assms
  by (auto simp: post_generate_deck_def await_def resolve_def runRequests_append
           split: prod.splits sum.splits dest!: analyzePitch_run)

lemma post_mentor_qa_failure:
  assumes "runRequests c (requests_pitch t1 @ requests_pitch t2) h = (False, h')"
  shows "post_mentor_qa c t1 t2 h = (Response 500 (Obj [(''error'', Str ''Failed to generate mentor response'')]), h')"
  using assms
  by (auto simp: post_mentor_qa_def await_def resolve_def runRequests_append
           split: prod.splits sum.splits dest!: analyzePitch_run)

lemma post_practice_feedback_failure:
  assumes "runRequests c (requests_pitch t1) h = (False, h')"
  shows "post_practice_feedback c t1 h = (Response 500 (Obj [(''error'', Str ''Failed to generate practice feedback'')]), h')"
  using assms
  by (auto simp: post_practice_feedback_def await_def resolve_def runRequests_append
           split: prod.splits sum.splits dest!: analyzePitch_run)

lemma post_idea_check_failure:
  assumes "runRequests c (requests t1) h = (False, h')"
  shows "post_idea_check c t1 h = (Response 500 (Obj [(''error'', Str ''Failed to analyze idea'')]), h')"
  using assms
  by (auto simp: post_idea_check_def await_def resolve_def runRequests_append
           split: prod.splits sum.splits dest!: analyzeBusinessIdea_run)

lemma post_swot_failure:
  assumes "runRequests c (requests t1 @ requests t2 @ requests t3) h = (False, h')"
  shows "post_swot c t1 t2 t3 h = (Response 500 (Obj [(''error'', Str ''Failed to generate SWOT analysis'')]), h')"
  using assms
  by (auto simp: post_swot_def await_def resolve_def runRequests_append
           split: prod.splits sum.splits dest!: analyzeBusinessIdea_run)

lemma post_guidance_failure:
  assumes "runRequests c (requests t1 @ requests t2 @ requests t3) h = (False, h')"
  shows "post_guidance c t1 t2 t3 h = (Response 500 (Obj [(''error'', Str ''Failed to generate funding guidance'')]), h')"
  using assms
  by (auto simp: post_guidance_def await_def resolve_def runRequests_append
           split: prod.splits sum.splits dest!: analyzeFundingData_run)

lemma post_investor_match_failure:
  assumes "runRequests c (requests t1 @ requests t2 @ requests t3) h = (False, h')"
  shows "post_investor_match c t1 t2 t3 h = (Response 500 (Obj [(''error'', Str ''Failed to generate investor matches'')]), h')"
  using assms
  by (auto simp: post_investor_match_def await_def resolve_def runRequests_append
           split: prod.splits sum.splits dest!: analyzeFundingData_run)

lemma post_readiness_failure:
  assumes "runRequests c (requests t1 @ requests t2 @ requests t3) h = (False, h')"
  shows "post_readiness c t1 t2 t3 h = (Response 500 (Obj [(''error'', Str ''Failed to assess funding readiness'')]), h')"
  using assms
  by (auto simp: post_readiness_def await_def resolve_def runRequests_append
           split: prod.splits sum.splits dest!: analyzeFundingData_run)

lemma rejected_flakyClient: "rejected (flakyClient n) h r = (length h = n)"
  by (cases r; cases "fst r") (auto simp: rejected_def flakyClient_def)

text \<open>
  Claim C8. In every analysis route, if the text-signal extraction of any field fails,
  that is, if some request made for one of the route's text fields is rejected, the
  request ends with the single error response of the route: status 500 and a body that
  holds the error message only, with no verdict of the fields already analysed. Nothing
  is tried again: where request number \<open>k\<close> is the first one rejected, the requests
  made are exactly the first \<open>k + 1\<close> of the route's requests, each once, the rejected
  one last.
\<close>

theorem failed_extraction_fails_request:
  "(firstRejectionAt c h (requests t1 @ requests t2 @ requests t3) k \<longrightarrow>
      post_analyze c t1 t2 t3 h
        = (Response 500 (Obj [(''error'', Str ''Failed to analyze market'')]),
           h @ take (Suc k) (requests t1 @ requests t2 @ requests t3)))
   \<and> (firstRejectionAt c h (requests t1 @ requests t2 @ requests t3) k \<longrightarrow>
      post_competitors c t1 t2 t3 h
        = (Response 500 (Obj [(''error'', Str ''Failed to analyze competitors'')]),
           h @ take (Suc k) (requests t1 @ requests t2 @ requests t3)))
   \<and> (firstRejectionAt c h (requests t1 @ requests t2 @ requests t3) k \<longrightarrow>
      post_strategy c t1 t2 t3 h
        = (Response 500 (Obj [(''error'', Str ''Failed to generate strategy'')]),
           h @ take (Suc k) (requests t1 @ requests t2 @ requests t3)))
   \<and> (firstRejectionAt c h (requests_pitch t1 @ requests_pitch t2 @ requests_pitch t3) k \<longrightarrow>
      post_generate_deck c t1 t2 t3 h
        = (Response 500 (Obj [(''error'', Str ''Failed to generate pitch deck'')]),
           h @ take (Suc k) (requests_pitch t1 @ requests_pitch t2 @ requests_pitch t3)))
   \<and> (firstRejectionAt c h (requests_pitch t1 @ requests_pitch t2) k \<longrightarrow>
      post_mentor_qa c t1 t2 h
        = (Response 500 (Obj [(''error'', Str ''Failed to generate mentor response'')]),
           h @ take (Suc k) (requests_pitch t1 @ requests_pitch t2)))
   \<and> (firstRejectionAt c h (requests_pitch t1) k \<longrightarrow>
      post_practice_feedback c t1 h
        = (Response 500 (Obj [(''error'', Str ''Failed to generate practice feedback'')]),
           h @ take (Suc k) (requests_pitch t1)))
   \<and> (firstRejectionAt c h (requests t1) k \<longrightarrow>
      post_idea_check c t1 h
        = (Response 500 (Obj [(''error'', Str ''Failed to analyze idea'')]),
           h @ take (Suc k) (requests t1)))
   \<and> (firstRejectionAt c h (requests t1 @ requests t2 @ requests t3) k \<longrightarrow>
      post_swot c t1 t2 t3 h
        = (Response 500 (Obj [(''error'', Str ''Failed to generate SWOT analysis'')]),
           h @ take (Suc k) (requests t1 @ requests t2 @ requests t3)))
   \<and> (firstRejectionAt c h (requests t1 @ requests t2 @ requests t3) k \<longrightarrow>
      post_guidance c t1 t2 t3 h
        = (Response 500 (Obj [(''error'', Str ''Failed to generate funding guidance'')]),
           h @ take (Suc k) (requests t1 @ requests t2 @ requests t3)))
   \<and> (firstRejectionAt c h (requests t1 @ requests t2 @ requests t3) k \<longrightarrow>
      post_investor_match c t1 t2 t3 h
        = (Response 500 (Obj [(''error'', Str ''Failed to generate investor matches'')]),
           h @ take (Suc k) (requests t1 @ requests t2 @ requests t3)))
   \<and> (firstRejectionAt c h (requests t1 @ requests t2 @ requests t3) k \<longrightarrow>
      post_readiness c t1 t2 t3 h
        = (Response 500 (Obj [(''error'', Str ''Failed to assess funding readiness'')]),
           h @ take (Suc k) (requests t1 @ requests t2 @ requests t3)))"
  by (intro conjI impI)
     (simp_all only: runRequests_firstRejectionAt post_analyze_failure post_competitors_failure post_strategy_failure post_generate_deck_failure post_mentor_qa_failure post_practice_feedback_failure post_idea_check_failure post_swot_failure post_guidance_failure post_investor_match_failure post_readiness_failure)

theorem failed_extraction_fails_request_witness:
  "\<not> rejected (flakyClient 2) [] (AnalyzeSentiment, ''a'')
   \<and> \<not> rejected (flakyClient 2) [(AnalyzeSentiment, ''a'')] (AnalyzeEntities, ''a'')
   \<and> rejected (flakyClient 2) [(AnalyzeSentiment, ''a''), (AnalyzeEntities, ''a'')] (AnalyzeSyntax, ''a'')
   \<and> \<not> rejected (flakyClient 2) [(AnalyzeSentiment, ''a''), (AnalyzeEntities, ''a''), (AnalyzeSyntax, ''a'')] (AnalyzeSyntax, ''a'')
   \<and> post_analyze (flakyClient 2) ''a'' ''b'' ''c'' []
       = (Response 500 (Obj [(''error'', Str ''Failed to analyze market'')]), [(AnalyzeSentiment, ''a''), (AnalyzeEntities, ''a''), (AnalyzeSyntax, ''a'')])
   \<and> post_competitors (flakyClient 2) ''a'' ''b'' ''c'' []
       = (Response 500 (Obj [(''error'', Str ''Failed to analyze competitors'')]), [(AnalyzeSentiment, ''a''), (AnalyzeEntities, ''a''), (AnalyzeSyntax, ''a'')])
   \<and> post_strategy (flakyClient 2) ''a'' ''b'' ''c'' []
       = (Response 500 (Obj [(''error'', Str ''Failed to generate strategy'')]), [(AnalyzeSentiment, ''a''), (AnalyzeEntities, ''a''), (AnalyzeSyntax, ''a'')])
   \<and> post_generate_deck (flakyClient 2) ''a'' ''b'' ''c'' []
       = (Response 500 (Obj [(''error'', Str ''Failed to generate pitch deck'')]), [(AnalyzeSentiment, ''a''), (AnalyzeEntities, ''a''), (AnalyzeSyntax, ''a'')])
   \<and> post_mentor_qa (flakyClient 2) ''a'' ''b'' []
       = (Response 500 (Obj [(''error'', Str ''Failed to generate mentor response'')]), [(AnalyzeSentiment, ''a''), (AnalyzeEntities, ''a''), (AnalyzeSyntax, ''a'')])
   \<and> post_practice_feedback (flakyClient 2) ''a'' []
       = (Response 500 (Obj [(''error'', Str ''Failed to generate practice feedback'')]), [(AnalyzeSentiment, ''a''), (AnalyzeEntities, ''a''), (AnalyzeSyntax, ''a'')])
   \<and> post_idea_check (flakyClient 2) ''a'' []
       = (Response 500 (Obj [(''error'', Str ''Failed to analyze idea'')]), [(AnalyzeSentiment, ''a''), (AnalyzeEntities, ''a''), (AnalyzeSyntax, ''a'')])
   \<and> post_swot (flakyClient 2) ''a'' ''b'' ''c'' []
       = (Response 500 (Obj [(''error'', Str ''Failed to generate SWOT analysis'')]), [(AnalyzeSentiment, ''a''), (AnalyzeEntities, ''a''), (AnalyzeSyntax, ''a'')])
   \<and> post_guidance (flakyClient 2) ''a'' ''b'' ''c'' []
       = (Response 500 (Obj [(''error'', Str ''Failed to generate funding guidance'')]), [(AnalyzeSentiment, ''a''), (AnalyzeEntities, ''a''), (AnalyzeSyntax, ''a'')])
   \<and> post_investor_match (flakyClient 2) ''a'' ''b'' ''c'' []
       = (Response 500 (Obj [(''error'', Str ''Failed to generate investor matches'')]), [(AnalyzeSentiment, ''a''), (AnalyzeEntities, ''a''), (AnalyzeSyntax, ''a'')])
   \<and> post_readiness (flakyClient 2) ''a'' ''b'' ''c'' []
       = (Response 500 (Obj [(''error'', Str ''Failed to assess funding readiness'')]), [(AnalyzeSentiment, ''a''), (AnalyzeEntities, ''a''), (AnalyzeSyntax, ''a'')])
   \<and> post_analyze (flakyClient 9) ''a'' ''b'' ''c'' []
       = (Response 500 (Obj [(''error'', Str ''Failed to analyze market'')]),
          requests ''a'' @ requests ''b'' @ [(AnalyzeSentiment, ''c''), (AnalyzeEntities, ''c'')])"
  using failed_extraction_fails_request [of "flakyClient 2" "[]" "''a''" "''b''" "''c''" 2]
    failed_extraction_fails_request [of "flakyClient 9" "[]" "''a''" "''b''" "''c''" 9]
  by (simp add: firstRejectionAt_def rejected_flakyClient requests_def requests_pitch_def)

section \<open>The verdict depends on the analyses alone\<close>

lemma post_analyze_success:
  assumes "analyzeMarketData c market h = (Inr marketAnalysis, h1)"
    and "analyzeMarketData c industry h1 = (Inr industryAnalysis, h2)"
    and "analyzeMarketData c trends h2 = (Inr trendsAnalysis, h3)"
  shows "post_analyze c market industry trends h =
           (Response 200
              (Obj [(''analysis'',
                 Obj [(''marketOverview'',
                         Obj [(''sentiment'', Num (score (sentiment marketAnalysis))),
                              (''keyFactors'', Arr (extractKeyFactors marketAnalysis)),
                              (''marketSize'', Arr (extractMarketSize marketAnalysis))]),
                      (''industryAnalysis'',
                         Obj [(''trends'', Arr (extractTrends industryAnalysis)),
                              (''challenges'', Arr (extractChallenges industryAnalysis)),
                              (''opportunities'', Arr (extractOpportunities industryAnalysis))]),
                      (''growthPotential'',
                         Obj [(''trends'', Arr (analyzeTrends trendsAnalysis)),
                              (''forecast'', generateForecast trendsAnalysis)]),
                      (''recommendations'',
                         Arr (map Str (generateMarketRecommendations marketAnalysis industryAnalysis)))])]),
            h3)"
  using assms by (simp add: post_analyze_def await_def resolve_def)

lemma post_investor_match_success:
  assumes "analyzeFundingData c pitch h = (Inr pitchAnalysis, h1)"
    and "analyzeFundingData c requirements h1 = (Inr requirementsAnalysis, h2)"
    and "analyzeFundingData c preferences h2 = (Inr preferencesAnalysis, h3)"
  shows "post_investor_match c pitch requirements preferences h =
           (Response 200
              (Obj [(''matches'',
                 Obj [(''investorProfile'', generateInvestorProfile requirementsAnalysis),
                      (''matchScore'', Num (calculateMatchScore pitchAnalysis requirementsAnalysis)),
                      (''recommendations'',
                         Arr (map Str (generateMatchRecommendations pitchAnalysis preferencesAnalysis)))])]),
            h3)"
  using assms by (simp add: post_investor_match_def await_def resolve_def)

lemma post_readiness_success:
  assumes "analyzeFundingData c business h = (Inr businessAnalysis, h1)"
    and "analyzeFundingData c financials h1 = (Inr financialsAnalysis, h2)"
    and "analyzeFundingData c team h2 = (Inr teamAnalysis, h3)"
  shows "post_readiness c business financials team h =
           (Response 200
              (Obj [(''assessment'',
                 Obj [(''overallScore'',
                         Num (calculateReadinessScore businessAnalysis financialsAnalysis teamAnalysis)),
                      (''businessReadiness'', assessBusinessReadiness businessAnalysis),
                      (''financialReadiness'', assessFinancialReadiness financialsAnalysis),
                      (''teamReadiness'', assessTeamReadiness teamAnalysis),
                      (''improvements'',
                         Arr (map Str (generateReadinessImprovements businessAnalysis financialsAnalysis
                                         teamAnalysis)))])]),
            h3)"
  using assms by (simp add: post_readiness_def await_def resolve_def)

text \<open>
  Claim C9. The classifier is deterministic, with no hidden state. Take two runs of a
  route, with any two clients, any two histories of earlier requests and any texts, in
  which the extractions return the same analyses. Then the two responses are identical,
  and the outputs of the classifier functions in them, the key factors and the
  recommendations of the market analysis, the match score and the readiness score, are
  the values of \<open>extractKeyFactors\<close>, \<open>generateMarketRecommendations\<close>,
  \<open>calculateMatchScore\<close> and \<open>calculateReadinessScore\<close> at these analyses: they
  depend on nothing else.
\<close>

theorem verdict_depends_on_analyses_only:
  assumes "analyzeMarketData c t1 h = (Inr a1, h1)"
    and "analyzeMarketData c t2 h1 = (Inr a2, h2)"
    and "analyzeMarketData c t3 h2 = (Inr a3, h3)"
    and "analyzeMarketData c' t1' h' = (Inr a1, h1')"
    and "analyzeMarketData c' t2' h1' = (Inr a2, h2')"
    and "analyzeMarketData c' t3' h2' = (Inr a3, h3')"
    and "analyzeFundingData c t1 h = (Inr a1, h1)"
    and "analyzeFundingData c t2 h1 = (Inr a2, h2)"
    and "analyzeFundingData c t3 h2 = (Inr a3, h3)"
    and "analyzeFundingData c' t1' h' = (Inr a1, h1')"
    and "analyzeFundingData c' t2' h1' = (Inr a2, h2')"
    and "analyzeFundingData c' t3' h2' = (Inr a3, h3')"
  shows "fst (post_analyze c t1 t2 t3 h) = fst (post_analyze c' t1' t2' t3' h')
         \<and> path [''analysis'', ''marketOverview'', ''keyFactors''] (body (fst (post_analyze c t1 t2 t3 h)))
             = Some (Arr (extractKeyFactors a1))
         \<and> path [''analysis'', ''recommendations''] (body (fst (post_analyze c t1 t2 t3 h)))
             = Some (Arr (map Str (generateMarketRecommendations a1 a2)))
         \<and> fst (post_investor_match c t1 t2 t3 h) = fst (post_investor_match c' t1' t2' t3' h')
         \<and> path [''matches'', ''matchScore''] (body (fst (post_investor_match c t1 t2 t3 h)))
             = Some (Num (calculateMatchScore a1 a2))
         \<and> fst (post_readiness c t1 t2 t3 h) = fst (post_readiness c' t1' t2' t3' h')
         \<and> path [''assessment'', ''overallScore''] (body (fst (post_readiness c t1 t2 t3 h)))
             = Some (Num (calculateReadinessScore a1 a2 a3))"
  by (simp add: post_analyze_success [OF assms(1-3)] post_analyze_success [OF assms(4-6)]
        post_investor_match_success [OF assms(7-9)] post_investor_match_success [OF assms(10-12)]
        post_readiness_success [OF assms(7-9)] post_readiness_success [OF assms(10-12)] field_def)

theorem verdict_depends_on_analyses_only_witness:
  "analyzeMarketData (steadyClient \<lparr>score = 0.5, magnitude = 0.5\<rparr> [] []) ''a'' [] = (Inr (mkSignal 0.5 0.5 []), requests ''a'')
   \<and> analyzeMarketData (steadyClient \<lparr>score = 0.5, magnitude = 0.5\<rparr> [] []) ''b'' (requests ''a'') = (Inr (mkSignal 0.5 0.5 []), requests ''a'' @ requests ''b'')
   \<and> analyzeMarketData (steadyClient \<lparr>score = 0.5, magnitude = 0.5\<rparr> [] []) ''c'' (requests ''a'' @ requests ''b'') = (Inr (mkSignal 0.5 0.5 []), requests ''a'' @ requests ''b'' @ requests ''c'')
   \<and> analyzeMarketData (flakyClient 100) ''x'' [(ClassifyText, ''earlier'')] = (Inr (mkSignal 0.5 0.5 []), [(ClassifyText, ''earlier'')] @ requests ''x'')
   \<and> analyzeMarketData (flakyClient 100) ''y'' ([(ClassifyText, ''earlier'')] @ requests ''x'') = (Inr (mkSignal 0.5 0.5 []), [(ClassifyText, ''earlier'')] @ requests ''x'' @ requests ''y'')
   \<and> analyzeMarketData (flakyClient 100) ''z'' ([(ClassifyText, ''earlier'')] @ requests ''x'' @ requests ''y'') = (Inr (mkSignal 0.5 0.5 []), [(ClassifyText, ''earlier'')] @ requests ''x'' @ requests ''y'' @ requests ''z'')
   \<and> analyzeFundingData (steadyClient \<lparr>score = 0.5, magnitude = 0.5\<rparr> [] []) ''a'' [] = (Inr (mkSignal 0.5 0.5 []), requests ''a'')
   \<and> analyzeFundingData (steadyClient \<lparr>score = 0.5, magnitude = 0.5\<rparr> [] []) ''b'' (requests ''a'') = (Inr (mkSignal 0.5 0.5 []), requests ''a'' @ requests ''b'')
   \<and> analyzeFundingData (steadyClient \<lparr>score = 0.5, magnitude = 0.5\<rparr> [] []) ''c'' (requests ''a'' @ requests ''b'') = (Inr (mkSignal 0.5 0.5 []), requests ''a'' @ requests ''b'' @ requests ''c'')
   \<and> analyzeFundingData (flakyClient 100) ''x'' [(ClassifyText, ''earlier'')] = (Inr (mkSignal 0.5 0.5 []), [(ClassifyText, ''earlier'')] @ requests ''x'')
   \<and> analyzeFundingData (flakyClient 100) ''y'' ([(ClassifyText, ''earlier'')] @ requests ''x'') = (Inr (mkSignal 0.5 0.5 []), [(ClassifyText, ''earlier'')] @ requests ''x'' @ requests ''y'')
   \<and> analyzeFundingData (flakyClient 100) ''z'' ([(ClassifyText, ''earlier'')] @ requests ''x'' @ requests ''y'') = (Inr (mkSignal 0.5 0.5 []), [(ClassifyText, ''earlier'')] @ requests ''x'' @ requests ''y'' @ requests ''z'')
   \<and> fst (post_analyze (steadyClient \<lparr>score = 0.5, magnitude = 0.5\<rparr> [] []) ''a'' ''b'' ''c'' []) = fst (post_analyze (flakyClient 100) ''x'' ''y'' ''z'' [(ClassifyText, ''earlier'')])
   \<and> path [''analysis'', ''marketOverview'', ''keyFactors''] (body (fst (post_analyze (flakyClient 100) ''x'' ''y'' ''z'' [(ClassifyText, ''earlier'')]))) = Some (Arr [])
   \<and> path [''analysis'', ''recommendations''] (body (fst (post_analyze (flakyClient 100) ''x'' ''y'' ''z'' [(ClassifyText, ''earlier'')])))
       = Some (Arr [Str ''Consider aggressive market entry strategies''])
   \<and> fst (post_investor_match (steadyClient \<lparr>score = 0.5, magnitude = 0.5\<rparr> [] []) ''a'' ''b'' ''c'' []) = fst (post_investor_match (flakyClient 100) ''x'' ''y'' ''z'' [(ClassifyText, ''earlier'')])
   \<and> path [''matches'', ''matchScore''] (body (fst (post_investor_match (flakyClient 100) ''x'' ''y'' ''z'' [(ClassifyText, ''earlier'')]))) = Some (Num 75)
   \<and> fst (post_readiness (steadyClient \<lparr>score = 0.5, magnitude = 0.5\<rparr> [] []) ''a'' ''b'' ''c'' []) = fst (post_readiness (flakyClient 100) ''x'' ''y'' ''z'' [(ClassifyText, ''earlier'')])
   \<and> path [''assessment'', ''overallScore''] (body (fst (post_readiness (flakyClient 100) ''x'' ''y'' ''z'' [(ClassifyText, ''earlier'')]))) = Some (Num 75)"
proof -
  have m1: "analyzeMarketData (steadyClient \<lparr>score = 0.5, magnitude = 0.5\<rparr> [] []) ''a'' [] = (Inr (mkSignal 0.5 0.5 []), requests ''a'')"
    by (simp add: analyzeMarketData_def async_defs steadyClient_def flakyClient_def requests_def fixture_defs)
  have m2: "analyzeMarketData (steadyClient \<lparr>score = 0.5, magnitude = 0.5\<rparr> [] []) ''b'' (requests ''a'') = (Inr (mkSignal 0.5 0.5 []), requests ''a'' @ requests ''b'')"
    by (simp add: analyzeMarketData_def async_defs steadyClient_def flakyClient_def requests_def fixture_defs)
  have m3: "analyzeMarketData (steadyClient \<lparr>score = 0.5, magnitude = 0.5\<rparr> [] []) ''c'' (requests ''a'' @ requests ''b'') = (Inr (mkSignal 0.5 0.5 []), requests ''a'' @ requests ''b'' @ requests ''c'')"
    by (simp add: analyzeMarketData_def async_defs steadyClient_def flakyClient_def requests_def fixture_defs)
  have m4: "analyzeMarketData (flakyClient 100) ''x'' [(ClassifyText, ''earlier'')] = (Inr (mkSignal 0.5 0.5 []), [(ClassifyText, ''earlier'')] @ requests ''x'')"
    by (simp add: analyzeMarketData_def async_defs steadyClient_def flakyClient_def requests_def fixture_defs)
  have m5: "analyzeMarketData (flakyClient 100) ''y'' ([(ClassifyText, ''earlier'')] @ requests ''x'') = (Inr (mkSignal 0.5 0.5 []), [(ClassifyText, ''earlier'')] @ requests ''x'' @ requests ''y'')"
    by (simp add: analyzeMarketData_def async_defs steadyClient_def flakyClient_def requests_def fixture_defs)
  have m6: "analyzeMarketData (flakyClient 100) ''z'' ([(ClassifyText, ''earlier'')] @ requests ''x'' @ requests ''y'') = (Inr (mkSignal 0.5 0.5 []), [(ClassifyText, ''earlier'')] @ requests ''x'' @ requests ''y'' @ requests ''z'')"
    by (simp add: analyzeMarketData_def async_defs steadyClient_def flakyClient_def requests_def fixture_defs)
  have f1: "analyzeFundingData (steadyClient \<lparr>score = 0.5, magnitude = 0.5\<rparr> [] []) ''a'' [] = (Inr (mkSignal 0.5 0.5 []), requests ''a'')"
    by (simp add: analyzeFundingData_def async_defs steadyClient_def flakyClient_def requests_def fixture_defs)
  have f2: "analyzeFundingData (steadyClient \<lparr>score = 0.5, magnitude = 0.5\<rparr> [] []) ''b'' (requests ''a'') = (Inr (mkSignal 0.5 0.5 []), requests ''a'' @ requests ''b'')"
    by (simp add: analyzeFundingData_def async_defs steadyClient_def flakyClient_def requests_def fixture_defs)
  have f3: "analyzeFundingData (steadyClient \<lparr>score = 0.5, magnitude = 0.5\<rparr> [] []) ''c'' (requests ''a'' @ requests ''b'') = (Inr (mkSignal 0.5 0.5 []), requests ''a'' @ requests ''b'' @ requests ''c'')"
    by (simp add: analyzeFundingData_def async_defs steadyClient_def flakyClient_def requests_def fixture_defs)
  have f4: "analyzeFundingData (flakyClient 100) ''x'' [(ClassifyText, ''earlier'')] = (Inr (mkSignal 0.5 0.5 []), [(ClassifyText, ''earlier'')] @ requests ''x'')"
    by (simp add: analyzeFundingData_def async_defs steadyClient_def flakyClient_def requests_def fixture_defs)
  have f5: "analyzeFundingData (flakyClient 100) ''y'' ([(ClassifyText, ''earlier'')] @ requests ''x'') = (Inr (mkSignal 0.5 0.5 []), [(ClassifyText, ''earlier'')] @ requests ''x'' @ requests ''y'')"
    by (simp add: analyzeFundingData_def async_defs steadyClient_def flakyClient_def requests_def fixture_defs)
  have f6: "analyzeFundingData (flakyClient 100) ''z'' ([(ClassifyText, ''earlier'')] @ requests ''x'' @ requests ''y'') = (Inr (mkSignal 0.5 0.5 []), [(ClassifyText, ''earlier'')] @ requests ''x'' @ requests ''y'' @ requests ''z'')"
    by (simp add: analyzeFundingData_def async_defs steadyClient_def flakyClient_def requests_def fixture_defs)
  note inst = verdict_depends_on_analyses_only [OF m1 m2 m3 m4 m5 m6 f1 f2 f3 f4 f5 f6]
  have vals: "extractKeyFactors (mkSignal 0.5 0.5 []) = []"
    "generateMarketRecommendations (mkSignal 0.5 0.5 []) (mkSignal 0.5 0.5 [])
       = [''Consider aggressive market entry strategies'']"
    "calculateMatchScore (mkSignal 0.5 0.5 []) (mkSignal 0.5 0.5 []) = 75"
    "calculateReadinessScore (mkSignal 0.5 0.5 []) (mkSignal 0.5 0.5 []) (mkSignal 0.5 0.5 []) = 75"
    by (simp_all add: fixture_defs generateMarketRecommendations_def extractKeyFactors_def
          extractChallenges_def calculateMatchScore_def calculateReadinessScore_def)
  from inst have eqs:
    "fst (post_analyze (flakyClient 100) ''x'' ''y'' ''z'' [(ClassifyText, ''earlier'')])
       = fst (post_analyze (steadyClient \<lparr>score = 0.5, magnitude = 0.5\<rparr> [] []) ''a'' ''b'' ''c'' [])"
    "fst (post_investor_match (flakyClient 100) ''x'' ''y'' ''z'' [(ClassifyText, ''earlier'')])
       = fst (post_investor_match (steadyClient \<lparr>score = 0.5, magnitude = 0.5\<rparr> [] []) ''a'' ''b'' ''c'' [])"
    "fst (post_readiness (flakyClient 100) ''x'' ''y'' ''z'' [(ClassifyText, ''earlier'')])
       = fst (post_readiness (steadyClient \<lparr>score = 0.5, magnitude = 0.5\<rparr> [] []) ''a'' ''b'' ''c'' [])"
    by simp_all
  show ?thesis
    using inst by (simp only: eqs vals m1 m2 m3 m4 m5 m6 f1 f2 f3 f4 f5 f6 simp_thms list.map)
qed

end
